theory Spec2Isabelle
  imports Complex_Main "HOL-Library.Char_ord" "HOL-Library.List_Lexorder" "HOL-Library.Multiset"
    "HOL-Library.AList" "HOL-Library.Option_ord"
begin

section \<open>Tag fact scanner: \<open>extract_features\<close>\<close>

text \<open>
  \<open>extract_features\<close> hands the markup to BeautifulSoup and works on the parsed tree.
  The tree is the input of the model. A node is a tag, with a name, an attribute
  dictionary (an association list read by key) and its contents, or a string. A string
  of the tree has a class: \<open>NavigableString\<close> itself, \<open>CData\<close>, or one of the other
  subclasses, which the parser gives to comments, declarations and the like, and to
  the strings inside \<open>script\<close>, \<open>style\<close>, \<open>template\<close>, \<open>rt\<close> and \<open>rp\<close> tags. Python
  strings are modelled as \<open>string\<close>, one \<open>char\<close> per code point below 256.
\<close>

datatype string_class =
    Comment
  | Declaration
  | Doctype
  | ProcessingInstruction
  | Script
  | Stylesheet
  | TemplateString
  | RubyTextString
  | RubyParenthesisString

datatype node =
    NavigableString string
  | CData string
  | Special string_class string
  | Tag string "(string \<times> string) list" "node list"

text \<open>\<open>tag.descendants\<close>: every node below a tag, in document order (pre-order).\<close>

fun descendants :: "node \<Rightarrow> node list" where
  "descendants (Tag n a cs) = concat (map (\<lambda>c. c # descendants c) cs)"
| "descendants s = []"

text \<open>
  The document is given as the list of its top-level nodes; \<open>soup.descendants\<close> lists
  all its nodes in document order. \<open>soup.find_all(name)\<close> keeps the tags of that name.
\<close>

definition document_order :: "node list \<Rightarrow> node list" where
  "document_order soup = concat (map (\<lambda>c. c # descendants c) soup)"

fun is_tag_named :: "string \<Rightarrow> node \<Rightarrow> bool" where
  "is_tag_named n (Tag m a cs) = (m = n)"
| "is_tag_named n s = False"

definition find_all :: "string \<Rightarrow> node list \<Rightarrow> node list" where
  "find_all n soup = filter (is_tag_named n) (document_order soup)"

text \<open>
  \<open>tag.text\<close>, for a tag that is not one of the five containers of special strings, as
  the two tags the scanner reads are not: the strings among the descendants of the tag
  whose class is exactly \<open>NavigableString\<close> or \<open>CData\<close>, concatenated. A comment or the
  string of a script below the tag is left out.
\<close>

fun interesting_string :: "node \<Rightarrow> string" where
  "interesting_string (NavigableString s) = s"
| "interesting_string (CData s) = s"
| "interesting_string n = []"

definition text_of :: "node \<Rightarrow> string" where
  "text_of t = concat (map interesting_string (descendants t))"

text \<open>\<open>tag.get(key, default)\<close>.\<close>

fun get :: "node \<Rightarrow> string \<Rightarrow> string \<Rightarrow> string" where
  "get (Tag n a cs) k d = (case map_of a k of None \<Rightarrow> d | Some v \<Rightarrow> v)"
| "get s k d = d"

text \<open>
  \<open>str.strip()\<close> removes the characters for which \<open>str.isspace\<close> holds from both ends:
  below 256 these are 9 to 13, 28 to 32, 133 and 160.
\<close>

definition isspace :: "char \<Rightarrow> bool" where
  "isspace c = (of_char c \<in> set [9, 10, 11, 12, 13, 28, 29, 30, 31, 32, 133, 160 :: nat])"

definition strip :: "string \<Rightarrow> string" where
  "strip s = rev (dropWhile isspace (rev (dropWhile isspace s)))"

text \<open>\<open>re.sub(r",", "", s)\<close>.\<close>

definition remove_commas :: "string \<Rightarrow> string" where
  "remove_commas s = filter (\<lambda>c. c \<noteq> CHR '','') s"

text \<open>
  \<open>re.match(r"^-?\d+(\.\d+)?$", value)\<close>. Below 256 \<open>\d\<close> is \<open>0\<close> to \<open>9\<close>; \<open>$\<close>
  matches at the end of the string and also just before a newline that ends the string.
\<close>

definition isdigit :: "char \<Rightarrow> bool" where
  "isdigit c = (c \<in> set ''0123456789'')"

definition at_dollar :: "string \<Rightarrow> bool" where
  "at_dollar s = (s = [] \<or> s = [CHR 0x0A])"

definition drop_sign :: "string \<Rightarrow> string" where
  "drop_sign s = (case s of [] \<Rightarrow> [] | c # r \<Rightarrow> if c = CHR ''-'' then r else s)"

definition numeral_match :: "string \<Rightarrow> bool" where
  "numeral_match s =
     (let s1 = drop_sign s; ds = takeWhile isdigit s1; r1 = dropWhile isdigit s1
      in ds \<noteq> [] \<and>
         ((case r1 of
             [] \<Rightarrow> False
           | c # r2 \<Rightarrow> c = CHR ''.'' \<and> takeWhile isdigit r2 \<noteq> [] \<and> at_dollar (dropWhile isdigit r2))
          \<or> at_dollar r1))"

text \<open>
  A row of the data frame. The value column holds a float or a string. A float is kept
  as the text it was read from: \<open>FloatOf s\<close> is the double that \<open>float(s)\<close> returns, the
  nearest to the number the text denotes, or an infinity when that number is beyond
  the doubles. The model does not compute the double, and so says nothing on whether
  the floats of two different texts are equal. On a text that the pattern admits,
  \<open>float\<close> does not raise.
\<close>

datatype pyfloat = FloatOf string

datatype cell_value = Number pyfloat | Str string

record fact =
  tag :: string
  name :: string
  val :: cell_value
  unit :: string
  decimals :: string

text \<open>
  The body of the first loop for one \<open>ix:nonfraction\<close> tag: the rows it appends.
  Nothing in the body raises on a tag of the tree, so the \<open>except\<close> branch is not taken.
\<close>

definition nonfraction_value :: "node \<Rightarrow> string" where
  "nonfraction_value t = remove_commas (strip (text_of t))"

definition nonfraction_rows :: "node \<Rightarrow> fact list" where
  "nonfraction_rows t =
     (let v = nonfraction_value t
      in if numeral_match v
         then [\<lparr>tag = ''nonfraction'', name = get t ''name'' ''Unknown'',
                val = Number (FloatOf v), unit = get t ''unitRef'' ''Unknown'',
                decimals = get t ''decimals'' ''Unknown''\<rparr>]
         else [])"

text \<open>The body of the second loop for one \<open>ix:nonnumeric\<close> tag.\<close>

definition nonnumeric_row :: "node \<Rightarrow> fact" where
  "nonnumeric_row t =
     \<lparr>tag = ''nonnumeric'', name = get t ''name'' ''Unknown'',
      val = Str (strip (text_of t)), unit = ''N/A'', decimals = ''N/A''\<rparr>"

definition extract_features :: "node list \<Rightarrow> fact list" where
  "extract_features soup =
     concat (map nonfraction_rows (find_all ''ix:nonfraction'' soup))
     @ map nonnumeric_row (find_all ''ix:nonnumeric'' soup)"

section \<open>Extraction payloads\<close>

text \<open>
  What \<open>json.loads\<close> returns: \<open>None\<close>, a bool, an int (unbounded), a float, a string,
  a list, or a dict with string keys. A float is a finite value (a rational here; Python
  has the nearest double), an infinity or NaN: \<open>json.loads\<close> accepts the tokens
  \<open>Infinity\<close>, \<open>-Infinity\<close> and \<open>NaN\<close>. A dict is an association list read by key.
\<close>

datatype double = Finite rat | PosInf | NegInf | NaN

datatype json =
    JNull
  | JBool bool
  | JInt int
  | JFloat double
  | JString string
  | JArray "json list"
  | JObject "(string \<times> json) list"

text \<open>The exceptions the program meets.\<close>

datatype exn =
    KeyError string
  | TypeError
  | IndexError
  | AttributeError
  | OverflowError
  | JSONDecodeError
  | OSError
  | APIError
  | IntegrityError
  | ProgrammingError

text \<open>\<open>sqlite3.Error\<close> and its subclasses, caught by the first handler of the persistence loop.\<close>

fun is_sqlite3_Error :: "exn \<Rightarrow> bool" where
  "is_sqlite3_Error IntegrityError = True"
| "is_sqlite3_Error ProgrammingError = True"
| "is_sqlite3_Error e = False"

text \<open>\<open>obj[key]\<close> with a string key: only a dict can be read so, and only at a key it has.\<close>

fun getitem :: "json \<Rightarrow> string \<Rightarrow> exn + json" where
  "getitem (JObject kvs) k = (case map_of kvs k of None \<Rightarrow> Inl (KeyError k) | Some v \<Rightarrow> Inr v)"
| "getitem j k = Inl TypeError"

text \<open>Sequencing of steps that may raise: the first exception ends the sequence.\<close>

definition bnd :: "exn + 'a \<Rightarrow> ('a \<Rightarrow> exn + 'b) \<Rightarrow> exn + 'b" where
  "bnd m f = (case m of Inl e \<Rightarrow> Inl e | Inr x \<Rightarrow> f x)"

section \<open>AI extraction orchestrator: \<open>extract_financial_data\<close>\<close>

text \<open>
  The remote service is the input of the model: a session says how each call of the
  client is answered while one document is processed. A call either raises or returns.
  The \<open>k\<close>-th poll of the run is answered by \<open>runs_retrieve k\<close>.

  A message has a role and a list of content blocks. The text of a text block is
  represented by what \<open>json.loads\<close> makes of it: a value, or \<open>Malformed\<close> when it raises.
  A block of another kind has no \<open>text\<close> attribute.
\<close>

datatype text_value = Loads json | Malformed

datatype content_block = TextBlock text_value | OtherBlock

record message =
  role :: string
  content :: "content_block list"

record run =
  run_id :: string
  status :: string

record session =
  open_file :: "exn option"
  files_create :: "exn + string"
  assistants_create :: "exn + string"
  threads_create :: "exn + string"
  runs_create :: "exn + run"
  runs_retrieve :: "nat \<Rightarrow> exn + run"
  messages_list :: "exn + message list"
  assistants_delete :: "exn option"
  files_delete :: "exn option"

record assistant_info =
  assistant_id :: string
  thread_id :: string
  file_id :: string

text \<open>The calls made on the remote service, in the order they are made.\<close>

datatype call =
    FilesCreate
  | AssistantsCreate
  | ThreadsCreate string
  | RunsCreate string string
  | RunsRetrieve string string
  | MessagesList string
  | AssistantsDelete string
  | FilesDelete string

text \<open>\<open>create_financial_assistant\<close>: upload the file, create the assistant and the thread.\<close>

definition create_financial_assistant :: "session \<Rightarrow> call list \<times> (exn + assistant_info)" where
  "create_financial_assistant s =
     (case open_file s of
        Some e \<Rightarrow> ([], Inl e)
      | None \<Rightarrow>
     (case files_create s of
        Inl e \<Rightarrow> ([FilesCreate], Inl e)
      | Inr fid \<Rightarrow>
     (case assistants_create s of
        Inl e \<Rightarrow> ([FilesCreate, AssistantsCreate], Inl e)
      | Inr aid \<Rightarrow>
     (case threads_create s of
        Inl e \<Rightarrow> ([FilesCreate, AssistantsCreate, ThreadsCreate fid], Inl e)
      | Inr tid \<Rightarrow>
          ([FilesCreate, AssistantsCreate, ThreadsCreate fid],
           Inr \<lparr>assistant_id = aid, thread_id = tid, file_id = fid\<rparr>)))))"

text \<open>
  The polling loop. It has no bound: the result is \<open>None\<close> when the run never leaves
  \<open>queued\<close> and \<open>in_progress\<close>. The loop returns the calls made so far and the last
  run, or the exception of the poll that raised.
\<close>

partial_function (option) poll ::
  "session \<Rightarrow> assistant_info \<Rightarrow> nat \<Rightarrow> run \<Rightarrow> call list \<Rightarrow> (call list \<times> (exn + run)) option"
where
  "poll s info k r calls =
     (if status r \<in> set [''queued'', ''in_progress'']
      then (case runs_retrieve s k of
              Inl e \<Rightarrow> Some (calls @ [RunsRetrieve (thread_id info) (run_id r)], Inl e)
            | Inr r' \<Rightarrow> poll s info (Suc k) r' (calls @ [RunsRetrieve (thread_id info) (run_id r)]))
      else Some (calls, Inr r))"

definition default_data :: json where
  "default_data = JObject
     [(''document_info'', JObject [(''company_name'', JString ''Unknown''),
                                   (''fiscal_year'', JString ''2023''),
                                   (''document_type'', JString ''10-K'')]),
      (''income_statement'', JObject [(''revenue'', JInt 0), (''operating_income'', JInt 0),
                                      (''net_income'', JInt 0)]),
      (''balance_sheet'', JObject [(''total_assets'', JInt 0), (''total_liabilities'', JInt 0),
                                   (''total_equity'', JInt 0)]),
      (''cash_flow'', JObject [(''operating_cash_flow'', JInt 0), (''investing_cash_flow'', JInt 0),
                               (''financing_cash_flow'', JInt 0)])]"

text \<open>
  \<open>json.loads(message.content[0].text.value)\<close> inside the \<open>try\<close>: an empty content list
  raises IndexError, a block without text AttributeError, a malformed text JSONDecodeError.
\<close>

fun loads_first_block :: "content_block list \<Rightarrow> exn + json" where
  "loads_first_block [] = Inl IndexError"
| "loads_first_block (OtherBlock # bs) = Inl AttributeError"
| "loads_first_block (TextBlock Malformed # bs) = Inl JSONDecodeError"
| "loads_first_block (TextBlock (Loads j) # bs) = Inr j"

text \<open>
  The loop over \<open>messages.data\<close>: the first message of the assistant decides, and
  whatever it raises is answered with \<open>default_data\<close>.
\<close>

fun scan_messages :: "message list \<Rightarrow> json" where
  "scan_messages [] = default_data"
| "scan_messages (m # ms) =
     (if role m = ''assistant''
      then (case loads_first_block (content m) of Inr j \<Rightarrow> j | Inl e \<Rightarrow> default_data)
      else scan_messages ms)"

definition extract_financial_data ::
  "session \<Rightarrow> assistant_info \<Rightarrow> (call list \<times> (exn + json)) option"
where
  "extract_financial_data s info =
     (let c1 = [RunsCreate (thread_id info) (assistant_id info)] in
      case runs_create s of
        Inl e \<Rightarrow> Some (c1, Inl e)
      | Inr r0 \<Rightarrow>
     (case poll s info 0 r0 c1 of
        None \<Rightarrow> None
      | Some (c2, Inl e) \<Rightarrow> Some (c2, Inl e)
      | Some (c2, Inr r) \<Rightarrow>
     (let c3 = c2 @ [MessagesList (thread_id info)] in
      case messages_list s of
        Inl e \<Rightarrow> Some (c3, Inl e)
      | Inr messages \<Rightarrow>
     (let c4 = c3 @ [AssistantsDelete (assistant_id info)] in
      case assistants_delete s of
        Some e \<Rightarrow> Some (c4, Inl e)
      | None \<Rightarrow>
     (let c5 = c4 @ [FilesDelete (file_id info)] in
      case files_delete s of
        Some e \<Rightarrow> Some (c5, Inl e)
      | None \<Rightarrow> Some (c5, Inr (scan_messages messages)))))))"

section \<open>Persistence layer: \<open>save_financial_data\<close>\<close>

text \<open>
  The values SQLite stores. A cell is recorded as the value bound to it; the conversion
  SQLite applies according to the declared type of the column is made where the cell is
  read, in the analytics section. The column \<open>created_at\<close>, filled with the time of the
  insertion, is left out.
\<close>

datatype sqlval = SNull | SInteger int | SReal double | SText string

text \<open>
  How the \<open>sqlite3\<close> module binds a Python value to a parameter: \<open>None\<close> is NULL, a bool
  is an integer, an int must fit in 64 bits, a NaN is stored as NULL, a list or a dict
  is not supported.
\<close>

fun adapt :: "json \<Rightarrow> exn + sqlval" where
  "adapt JNull = Inr SNull"
| "adapt (JBool b) = Inr (SInteger (if b then 1 else 0))"
| "adapt (JInt n) =
     (if - (2 ^ 63) \<le> n \<and> n < 2 ^ 63 then Inr (SInteger n) else Inl OverflowError)"
| "adapt (JFloat d) = Inr (if d = NaN then SNull else SReal d)"
| "adapt (JString s) = Inr (SText s)"
| "adapt (JArray xs) = Inl ProgrammingError"
| "adapt (JObject kvs) = Inl ProgrammingError"

record document_row =
  document_id :: int
  company_name :: sqlval
  fiscal_year :: sqlval
  document_type :: sqlval

record income_statement_row =
  income_statement_id :: int
  income_document_id :: int
  revenue :: sqlval
  operating_income :: sqlval
  net_income :: sqlval

record balance_sheet_row =
  balance_sheet_id :: int
  balance_document_id :: int
  total_assets :: sqlval
  total_liabilities :: sqlval
  total_equity :: sqlval

record cash_flow_row =
  cash_flow_id :: int
  cash_document_id :: int
  operating_cash_flow :: sqlval
  investing_cash_flow :: sqlval
  financing_cash_flow :: sqlval

record tables =
  documents :: "document_row list"
  income_statements :: "income_statement_row list"
  balance_sheets :: "balance_sheet_row list"
  cash_flows :: "cash_flow_row list"

text \<open>\<open>init_database\<close> removes the database file and creates the four tables, empty.\<close>

definition init_database :: tables where
  "init_database = \<lparr>documents = [], income_statements = [], balance_sheets = [], cash_flows = []\<rparr>"

text \<open>
  \<open>INTEGER PRIMARY KEY AUTOINCREMENT\<close>: the new id is one more than the largest id the
  table has held. No row is ever deleted and a rollback restores the counter with the
  rows, so that is the largest id in the table; the first id is 1.
\<close>

definition next_id :: "int list \<Rightarrow> int" where
  "next_id ids = (if ids = [] then 1 else Max (set ids) + 1)"

text \<open>
  The four INSERT statements. Each takes the tuple of Python values and the tables as
  the connection sees them. Parameters are bound in order; then the NOT NULL columns
  and, with \<open>PRAGMA foreign_keys = ON\<close>, the reference to \<open>documents(id)\<close> are checked.
  A statement that raises leaves the tables as they were.
\<close>

definition adapt3 :: "json \<Rightarrow> json \<Rightarrow> json \<Rightarrow> exn + sqlval \<times> sqlval \<times> sqlval" where
  "adapt3 x y z = bnd (adapt x) (\<lambda>a. bnd (adapt y) (\<lambda>b. bnd (adapt z) (\<lambda>c. Inr (a, b, c))))"

fun insert_document :: "json \<times> json \<times> json \<Rightarrow> tables \<Rightarrow> (exn + int) \<times> tables" where
  "insert_document (x, y, z) t =
     (case adapt3 x y z of
        Inl e \<Rightarrow> (Inl e, t)
      | Inr (a, b, c) \<Rightarrow>
          if a = SNull \<or> b = SNull \<or> c = SNull then (Inl IntegrityError, t)
          else let i = next_id (map document_id (documents t))
               in (Inr i, t\<lparr>documents := documents t @
                     [\<lparr>document_id = i, company_name = a, fiscal_year = b, document_type = c\<rparr>]\<rparr>))"

definition references_document :: "tables \<Rightarrow> int \<Rightarrow> bool" where
  "references_document t d = (d \<in> set (map document_id (documents t)))"

fun insert_income_statement ::
  "int \<times> json \<times> json \<times> json \<Rightarrow> tables \<Rightarrow> exn option \<times> tables"
where
  "insert_income_statement (d, x, y, z) t =
     (case adapt3 x y z of
        Inl e \<Rightarrow> (Some e, t)
      | Inr (a, b, c) \<Rightarrow>
          if \<not> references_document t d then (Some IntegrityError, t)
          else let i = next_id (map income_statement_id (income_statements t))
               in (None, t\<lparr>income_statements := income_statements t @
                     [\<lparr>income_statement_id = i, income_document_id = d, revenue = a,
                       operating_income = b, net_income = c\<rparr>]\<rparr>))"

fun insert_balance_sheet ::
  "int \<times> json \<times> json \<times> json \<Rightarrow> tables \<Rightarrow> exn option \<times> tables"
where
  "insert_balance_sheet (d, x, y, z) t =
     (case adapt3 x y z of
        Inl e \<Rightarrow> (Some e, t)
      | Inr (a, b, c) \<Rightarrow>
          if \<not> references_document t d then (Some IntegrityError, t)
          else let i = next_id (map balance_sheet_id (balance_sheets t))
               in (None, t\<lparr>balance_sheets := balance_sheets t @
                     [\<lparr>balance_sheet_id = i, balance_document_id = d, total_assets = a,
                       total_liabilities = b, total_equity = c\<rparr>]\<rparr>))"

fun insert_cash_flow ::
  "int \<times> json \<times> json \<times> json \<Rightarrow> tables \<Rightarrow> exn option \<times> tables"
where
  "insert_cash_flow (d, x, y, z) t =
     (case adapt3 x y z of
        Inl e \<Rightarrow> (Some e, t)
      | Inr (a, b, c) \<Rightarrow>
          if \<not> references_document t d then (Some IntegrityError, t)
          else let i = next_id (map cash_flow_id (cash_flows t))
               in (None, t\<lparr>cash_flows := cash_flows t @
                     [\<lparr>cash_flow_id = i, cash_document_id = d, operating_cash_flow = a,
                       investing_cash_flow = b, financing_cash_flow = c\<rparr>]\<rparr>))"

text \<open>
  The argument tuples, evaluated from left to right: \<open>data[group][key]\<close> reads the group
  and then the key, and the first read that raises ends the evaluation.
\<close>

definition getitem2 :: "json \<Rightarrow> string \<Rightarrow> string \<Rightarrow> exn + json" where
  "getitem2 data g k = bnd (getitem data g) (\<lambda>x. getitem x k)"

definition group_values ::
  "json \<Rightarrow> string \<Rightarrow> string \<Rightarrow> string \<Rightarrow> string \<Rightarrow> exn + json \<times> json \<times> json"
where
  "group_values data g k1 k2 k3 =
     bnd (getitem2 data g k1) (\<lambda>x. bnd (getitem2 data g k2) (\<lambda>y.
     bnd (getitem2 data g k3) (\<lambda>z. Inr (x, y, z))))"

text \<open>
  The body of the \<open>try\<close> for one document, up to the commit: the exception it raises,
  if any, and the tables as the statements executed so far have left them.
\<close>

definition try_body :: "json \<Rightarrow> json \<Rightarrow> tables \<Rightarrow> exn option \<times> tables" where
  "try_body doc_info data t0 =
     (case bnd (getitem doc_info ''company_name'') (\<lambda>x.
           bnd (getitem doc_info ''fiscal_year'') (\<lambda>y.
           bnd (getitem doc_info ''document_type'') (\<lambda>z. Inr (x, y, z)))) of
        Inl e \<Rightarrow> (Some e, t0)
      | Inr p \<Rightarrow>
     (case insert_document p t0 of
        (Inl e, t1) \<Rightarrow> (Some e, t1)
      | (Inr d, t1) \<Rightarrow>
     (case group_values data ''income_statement''
             ''revenue'' ''operating_income'' ''net_income'' of
        Inl e \<Rightarrow> (Some e, t1)
      | Inr p1 \<Rightarrow>
     (case insert_income_statement (d, p1) t1 of
        (Some e, t2) \<Rightarrow> (Some e, t2)
      | (None, t2) \<Rightarrow>
     (case group_values data ''balance_sheet''
             ''total_assets'' ''total_liabilities'' ''total_equity'' of
        Inl e \<Rightarrow> (Some e, t2)
      | Inr p2 \<Rightarrow>
     (case insert_balance_sheet (d, p2) t2 of
        (Some e, t3) \<Rightarrow> (Some e, t3)
      | (None, t3) \<Rightarrow>
     (case group_values data ''cash_flow''
             ''operating_cash_flow'' ''investing_cash_flow'' ''financing_cash_flow'' of
        Inl e \<Rightarrow> (Some e, t3)
      | Inr p3 \<Rightarrow> insert_cash_flow (d, p3) t3)))))))"

text \<open>
  The connection: the committed tables, and the tables as the connection sees them,
  with the changes of the open transaction.
\<close>

record connection =
  committed :: tables
  pending :: tables

definition connect :: "tables \<Rightarrow> connection" where
  "connect db = \<lparr>committed = db, pending = db\<rparr>"

definition commit :: "connection \<Rightarrow> connection" where
  "commit c = c\<lparr>committed := pending c\<rparr>"

definition rollback :: "connection \<Rightarrow> connection" where
  "rollback c = c\<lparr>pending := committed c\<rparr>"

text \<open>\<open>conn.close()\<close> drops the open transaction; the database file keeps what was committed.\<close>

definition close :: "connection \<Rightarrow> tables" where
  "close c = committed c"

text \<open>The two messages the handlers print, with the file name and the exception.\<close>

datatype printed = Error_saving_data string exn | Unexpected_error_processing string exn

definition handler_message :: "string \<Rightarrow> exn \<Rightarrow> printed" where
  "handler_message filename e =
     (if is_sqlite3_Error e then Error_saving_data filename e
      else Unexpected_error_processing filename e)"

text \<open>
  The loop over \<open>results.items()\<close>. The read of \<open>data["document_info"]\<close> stands before
  the \<open>try\<close>: an exception there leaves the loop and the function.
\<close>

fun save_documents ::
  "(string \<times> json) list \<Rightarrow> connection \<Rightarrow> printed list \<Rightarrow> exn option \<times> connection \<times> printed list"
where
  "save_documents [] c out = (None, c, out)"
| "save_documents ((filename, data) # rest) c out =
     (case getitem data ''document_info'' of
        Inl e \<Rightarrow> (Some e, c, out)
      | Inr doc_info \<Rightarrow>
          (case try_body doc_info data (pending c) of
             (None, t) \<Rightarrow> save_documents rest (commit (c\<lparr>pending := t\<rparr>)) out
           | (Some e, t) \<Rightarrow>
               save_documents rest (rollback (c\<lparr>pending := t\<rparr>))
                 (out @ [handler_message filename e])))"

text \<open>The SQLite part: connect, loop, final commit, and \<open>close\<close> in the \<open>finally\<close>.\<close>

definition save_to_sqlite ::
  "tables \<Rightarrow> (string \<times> json) list \<Rightarrow> exn option \<times> tables \<times> printed list"
where
  "save_to_sqlite db results =
     (case save_documents results (connect db) [] of
        (None, c, out) \<Rightarrow> (None, close (commit c), out)
      | (Some e, c, out) \<Rightarrow> (Some e, close c, out))"

text \<open>
  The Parquet part. A row is the dict \<open>{"company": ..., "fiscal_year": ..., **group}\<close>:
  a key of the group that repeats an earlier key replaces its value. A frame is
  written only when it has rows; the write itself is left to pandas, the model records
  the path and the rows handed to it.
\<close>

definition rstrip_s :: "string \<Rightarrow> string" where
  "rstrip_s s = rev (dropWhile (\<lambda>c. c = CHR ''s'') (rev s))"

definition parquet_row :: "string \<Rightarrow> json \<Rightarrow> exn + (string \<times> json) list" where
  "parquet_row category doc_data =
     bnd (getitem2 doc_data ''document_info'' ''company_name'') (\<lambda>company.
     bnd (getitem2 doc_data ''document_info'' ''fiscal_year'') (\<lambda>fy.
     bnd (getitem doc_data (rstrip_s category)) (\<lambda>g.
       case g of
         JObject kvs \<Rightarrow>
           Inr (foldl (\<lambda>d (k, v). AList.update k v d)
                  [(''company'', company), (''fiscal_year'', fy)] kvs)
       | _ \<Rightarrow> Inl TypeError)))"

fun parquet_rows :: "string \<Rightarrow> (string \<times> json) list \<Rightarrow> exn + (string \<times> json) list list" where
  "parquet_rows category [] = Inr []"
| "parquet_rows category ((document, doc_data) # rest) =
     bnd (parquet_row category doc_data) (\<lambda>r.
     bnd (parquet_rows category rest) (\<lambda>rs. Inr (r # rs)))"

type_synonym parquet_file = "string \<times> (string \<times> json) list list"

fun save_to_parquet ::
  "string \<Rightarrow> string list \<Rightarrow> (string \<times> json) list \<Rightarrow> exn option \<times> parquet_file list"
where
  "save_to_parquet timestamp [] results = (None, [])"
| "save_to_parquet timestamp (category # categories) results =
     (case parquet_rows category results of
        Inl e \<Rightarrow> (Some e, [])
      | Inr rows \<Rightarrow>
          (case save_to_parquet timestamp categories results of
             (r, files) \<Rightarrow>
               (r, if rows = [] then files
                   else (''gold/'' @ category @ ''/'' @ category @ ''_'' @ timestamp @ ''.parquet'',
                         rows) # files)))"

record saved =
  raised :: "exn option"
  database :: tables
  stdout :: "printed list"
  parquet :: "parquet_file list"

definition save_financial_data :: "string \<Rightarrow> tables \<Rightarrow> (string \<times> json) list \<Rightarrow> saved" where
  "save_financial_data timestamp db results =
     (case save_to_sqlite db results of
        (Some e, db', out) \<Rightarrow> \<lparr>raised = Some e, database = db', stdout = out, parquet = []\<rparr>
      | (None, db', out) \<Rightarrow>
          (case save_to_parquet timestamp
                  [''income_statements'', ''balance_sheets'', ''cash_flows''] results of
             (r, files) \<Rightarrow> \<lparr>raised = r, database = db', stdout = out, parquet = files\<rparr>))"

section \<open>Analytics engine: \<open>run_analysis_queries\<close>\<close>

text \<open>
  The queries are SQL text, run by SQLite; the model gives each query as a function of
  the tables, with SQLite's meaning of the operators it uses. REAL arithmetic is exact
  here (rationals, with the infinities), where SQLite computes in doubles.

  Three conversions between text and numbers are SQLite's own and are parameters of
  the model: the text it stores for a REAL bound to a TEXT column, the REAL it stores
  for a text that is a well-formed number bound to a REAL column (\<open>None\<close> for any other
  text), and the number (an integer or a real) it reads from a text operand of an
  arithmetic operator.
\<close>

datatype num = I int | R double

record sqlite =
  text_of_real :: "double \<Rightarrow> string"
  real_of_text :: "string \<Rightarrow> double option"
  num_of_text :: "string \<Rightarrow> num"

text \<open>The decimal text of an integer.\<close>

fun decimal_nat :: "nat \<Rightarrow> string" where
  "decimal_nat n =
     (if n < 10 then [char_of (48 + n)] else decimal_nat (n div 10) @ [char_of (48 + n mod 10)])"

definition decimal :: "int \<Rightarrow> string" where
  "decimal i = (if i < 0 then CHR ''-'' # decimal_nat (nat (- i)) else decimal_nat (nat i))"

text \<open>
  Reading a cell of a TEXT column (\<open>None\<close> is NULL) and of a REAL column: an integer in
  a REAL column is a real, a text that is a number is that number.
\<close>

fun text_affinity :: "sqlite \<Rightarrow> sqlval \<Rightarrow> string option" where
  "text_affinity q SNull = None"
| "text_affinity q (SInteger i) = Some (decimal i)"
| "text_affinity q (SReal d) = Some (text_of_real q d)"
| "text_affinity q (SText s) = Some s"

fun real_affinity :: "sqlite \<Rightarrow> sqlval \<Rightarrow> sqlval" where
  "real_affinity q SNull = SNull"
| "real_affinity q (SInteger i) = SReal (Finite (of_int i))"
| "real_affinity q (SReal d) = SReal d"
| "real_affinity q (SText s) = (case real_of_text q s of Some d \<Rightarrow> SReal d | None \<Rightarrow> SText s)"

fun text_cell :: "string option \<Rightarrow> sqlval" where
  "text_cell None = SNull"
| "text_cell (Some s) = SText s"

subsection \<open>Arithmetic\<close>

fun dneg :: "double \<Rightarrow> double" where
  "dneg (Finite a) = Finite (- a)"
| "dneg PosInf = NegInf"
| "dneg NegInf = PosInf"
| "dneg NaN = NaN"

fun dadd :: "double \<Rightarrow> double \<Rightarrow> double" where
  "dadd (Finite a) (Finite b) = Finite (a + b)"
| "dadd NaN y = NaN"
| "dadd x NaN = NaN"
| "dadd PosInf NegInf = NaN"
| "dadd NegInf PosInf = NaN"
| "dadd PosInf y = PosInf"
| "dadd NegInf y = NegInf"
| "dadd x PosInf = PosInf"
| "dadd x NegInf = NegInf"

definition dsub :: "double \<Rightarrow> double \<Rightarrow> double" where
  "dsub x y = dadd x (dneg y)"

text \<open>The sign of a double that is not NaN: \<open>-1\<close>, \<open>0\<close> or \<open>1\<close>.\<close>

fun dsgn :: "double \<Rightarrow> int" where
  "dsgn (Finite a) = (if a < 0 then - 1 else if a = 0 then 0 else 1)"
| "dsgn PosInf = 1"
| "dsgn NegInf = - 1"
| "dsgn NaN = 0"

definition inf_of_sign :: "int \<Rightarrow> double" where
  "inf_of_sign s = (if s < 0 then NegInf else if s = 0 then NaN else PosInf)"

fun dmul :: "double \<Rightarrow> double \<Rightarrow> double" where
  "dmul (Finite a) (Finite b) = Finite (a * b)"
| "dmul NaN y = NaN"
| "dmul x NaN = NaN"
| "dmul x y = inf_of_sign (dsgn x * dsgn y)"

text \<open>Division by a divisor that is not zero.\<close>

fun ddiv :: "double \<Rightarrow> double \<Rightarrow> double" where
  "ddiv (Finite a) (Finite b) = Finite (a / b)"
| "ddiv NaN y = NaN"
| "ddiv x NaN = NaN"
| "ddiv (Finite a) y = Finite 0"
| "ddiv x (Finite b) = inf_of_sign (dsgn x * dsgn (Finite b))"
| "ddiv x y = NaN"

text \<open>
  The operands of an arithmetic operator: NULL stays NULL (\<open>None\<close>), a text is read
  as a number.
\<close>

fun to_num :: "sqlite \<Rightarrow> sqlval \<Rightarrow> num option" where
  "to_num q SNull = None"
| "to_num q (SInteger i) = Some (I i)"
| "to_num q (SReal d) = Some (R d)"
| "to_num q (SText s) = Some (num_of_text q s)"

fun to_double :: "num \<Rightarrow> double" where
  "to_double (I i) = Finite (of_int i)"
| "to_double (R d) = d"

text \<open>A floating-point result that is NaN is NULL.\<close>

definition fp_result :: "double \<Rightarrow> sqlval" where
  "fp_result d = (if d = NaN then SNull else SReal d)"

definition in_int64 :: "int \<Rightarrow> bool" where
  "in_int64 n = (- (2 ^ 63) \<le> n \<and> n < 2 ^ 63)"

text \<open>
  \<open>x - y\<close>, \<open>x * y\<close>, \<open>x / y\<close>: NULL when an operand is NULL; on two integers the integer
  operation, unless it overflows 64 bits; otherwise the floating-point operation.
  A division by zero is NULL. The integer division truncates towards zero.
\<close>

definition sql_sub :: "sqlite \<Rightarrow> sqlval \<Rightarrow> sqlval \<Rightarrow> sqlval" where
  "sql_sub q x y =
     (case (to_num q x, to_num q y) of
        (Some (I a), Some (I b)) \<Rightarrow>
          if in_int64 (a - b) then SInteger (a - b)
          else fp_result (dsub (Finite (of_int a)) (Finite (of_int b)))
      | (Some a, Some b) \<Rightarrow> fp_result (dsub (to_double a) (to_double b))
      | _ \<Rightarrow> SNull)"

definition sql_mul :: "sqlite \<Rightarrow> sqlval \<Rightarrow> sqlval \<Rightarrow> sqlval" where
  "sql_mul q x y =
     (case (to_num q x, to_num q y) of
        (Some (I a), Some (I b)) \<Rightarrow>
          if in_int64 (a * b) then SInteger (a * b)
          else fp_result (dmul (Finite (of_int a)) (Finite (of_int b)))
      | (Some a, Some b) \<Rightarrow> fp_result (dmul (to_double a) (to_double b))
      | _ \<Rightarrow> SNull)"

definition trunc_div :: "int \<Rightarrow> int \<Rightarrow> int" where
  "trunc_div a b = sgn a * sgn b * (\<bar>a\<bar> div \<bar>b\<bar>)"

definition sql_div :: "sqlite \<Rightarrow> sqlval \<Rightarrow> sqlval \<Rightarrow> sqlval" where
  "sql_div q x y =
     (case (to_num q x, to_num q y) of
        (Some (I a), Some (I b)) \<Rightarrow>
          if b = 0 then SNull
          else if in_int64 (trunc_div a b) then SInteger (trunc_div a b)
          else fp_result (ddiv (Finite (of_int a)) (Finite (of_int b)))
      | (Some a, Some b) \<Rightarrow>
          if to_double b = Finite 0 then SNull
          else fp_result (ddiv (to_double a) (to_double b))
      | _ \<Rightarrow> SNull)"

text \<open>
  \<open>ROUND(x, 2)\<close>: NULL for NULL, otherwise a REAL; a value beyond \<open>2^52\<close> in magnitude
  is left as it is, any other is rounded to two decimals, a half away from zero.
\<close>

definition round2 :: "rat \<Rightarrow> rat" where
  "round2 r =
     (if r < - 4503599627370496 \<or> r > 4503599627370496 then r
      else if r < 0 then - (of_int \<lfloor>- r * 100 + 1 / 2\<rfloor> / 100)
      else of_int \<lfloor>r * 100 + 1 / 2\<rfloor> / 100)"

definition sql_round2 :: "sqlite \<Rightarrow> sqlval \<Rightarrow> sqlval" where
  "sql_round2 q x =
     (case to_num q x of
        None \<Rightarrow> SNull
      | Some n \<Rightarrow> (case to_double n of Finite r \<Rightarrow> SReal (Finite (round2 r)) | d \<Rightarrow> SReal d))"

text \<open>\<open>ROUND(x / y * 100, 2)\<close>, the form of every percentage of the report.\<close>

definition percent :: "sqlite \<Rightarrow> sqlval \<Rightarrow> sqlval \<Rightarrow> sqlval" where
  "percent q x y = sql_round2 q (sql_mul q (sql_div q x y) (SInteger 100))"

subsection \<open>The queries\<close>

text \<open>
  \<open>ORDER BY fiscal_year\<close> compares the texts byte by byte, NULL first. The order among
  rows of the same fiscal year is the engine's; the model keeps the order of the join.
  \<open>LAG(x) OVER (ORDER BY fiscal_year)\<close> is the \<open>x\<close> of the row before, NULL on the first.
\<close>

definition lag :: "sqlval list \<Rightarrow> sqlval list" where
  "lag xs = SNull # butlast xs"

definition revenue_data :: "sqlite \<Rightarrow> tables \<Rightarrow> (string option \<times> sqlval \<times> sqlval) list" where
  "revenue_data q t =
     (let rows = sort_key fst
            (concat (map (\<lambda>d. map (\<lambda>i. (text_affinity q (fiscal_year d),
                                           real_affinity q (revenue i)))
                         (filter (\<lambda>i. document_id d = income_document_id i)
                            (income_statements t)))
                     (documents t)))
      in zip (map fst rows) (zip (map snd rows) (lag (map snd rows))))"

definition revenue_growth :: "sqlite \<Rightarrow> tables \<Rightarrow> (string option \<times> sqlval) list" where
  "revenue_growth q t =
     sort_key fst
       (map (\<lambda>(fy, rev, prev). (fy, percent q (sql_sub q rev prev) prev))
          (filter (\<lambda>(fy, rev, prev). prev \<noteq> SNull) (revenue_data q t)))"

definition net_margin :: "sqlite \<Rightarrow> tables \<Rightarrow> (string option \<times> sqlval) list" where
  "net_margin q t =
     sort_key fst
       (concat (map (\<lambda>d. map (\<lambda>i. (text_affinity q (fiscal_year d),
                                      percent q (real_affinity q (net_income i))
                                                (real_affinity q (revenue i))))
                    (filter (\<lambda>i. document_id d = income_document_id i) (income_statements t)))
                (documents t)))"

definition balance_data ::
  "sqlite \<Rightarrow> tables \<Rightarrow> (string option \<times> (sqlval \<times> sqlval) \<times> (sqlval \<times> sqlval)) list"
where
  "balance_data q t =
     (let rows = sort_key fst
            (concat (map (\<lambda>d. map (\<lambda>b. (text_affinity q (fiscal_year d),
                                           real_affinity q (total_assets b),
                                           real_affinity q (total_liabilities b)))
                         (filter (\<lambda>b. document_id d = balance_document_id b)
                            (balance_sheets t)))
                     (documents t)));
          assets = map (\<lambda>r. fst (snd r)) rows;
          liabilities = map (\<lambda>r. snd (snd r)) rows
      in zip (map fst rows) (zip (zip assets (lag assets)) (zip liabilities (lag liabilities))))"

definition balance_change :: "sqlite \<Rightarrow> tables \<Rightarrow> (string option \<times> sqlval \<times> sqlval) list" where
  "balance_change q t =
     sort_key fst
       (map (\<lambda>(fy, (a, pa), (l, pl)).
               (fy, percent q (sql_sub q a pa) pa, percent q (sql_sub q l pl) pl))
          (filter (\<lambda>(fy, (a, pa), (l, pl)). pa \<noteq> SNull) (balance_data q t)))"

definition cash_flow_trend :: "sqlite \<Rightarrow> tables \<Rightarrow> (string option \<times> sqlval \<times> sqlval) list" where
  "cash_flow_trend q t =
     sort_key fst
       (concat (map (\<lambda>d. concat (map (\<lambda>c. map (\<lambda>i.
                        (text_affinity q (fiscal_year d),
                         real_affinity q (operating_cash_flow c),
                         percent q (real_affinity q (operating_cash_flow c))
                                   (real_affinity q (revenue i))))
                      (filter (\<lambda>i. document_id d = income_document_id i) (income_statements t)))
                    (filter (\<lambda>c. document_id d = cash_document_id c) (cash_flows t))))
                (documents t)))"

definition liquidity_indicator :: "sqlite \<Rightarrow> tables \<Rightarrow> (string option \<times> sqlval) list" where
  "liquidity_indicator q t =
     sort_key fst
       (concat (map (\<lambda>d. map (\<lambda>b.
                  (text_affinity q (fiscal_year d),
                   percent q (sql_sub q (real_affinity q (total_assets b))
                                        (real_affinity q (total_liabilities b)))
                             (real_affinity q (total_liabilities b))))
                 (filter (\<lambda>b. document_id d = balance_document_id b) (balance_sheets t)))
               (documents t)))"

text \<open>
  \<open>ROUND(AVG(x / 1000), 2)\<close> over the rows of the join: the mean of the values that
  are not NULL, as a REAL; NULL when there is none.
\<close>

definition sql_avg :: "sqlite \<Rightarrow> sqlval list \<Rightarrow> sqlval" where
  "sql_avg q xs =
     (let ns = concat (map (\<lambda>x. case to_num q x of None \<Rightarrow> [] | Some n \<Rightarrow> [to_double n]) xs)
      in if ns = [] then SNull
         else fp_result (ddiv (foldl dadd (Finite 0) ns) (Finite (of_nat (length ns)))))"

definition summary_statistics :: "sqlite \<Rightarrow> tables \<Rightarrow> sqlval \<times> sqlval \<times> sqlval" where
  "summary_statistics q t =
     (let rows = concat (map (\<lambda>d. concat (map (\<lambda>i. map (\<lambda>c. (i, c))
                      (filter (\<lambda>c. document_id d = cash_document_id c) (cash_flows t)))
                    (filter (\<lambda>i. document_id d = income_document_id i) (income_statements t))))
                  (documents t));
          avg = (\<lambda>f. sql_round2 q (sql_avg q
                   (map (\<lambda>r. sql_div q (real_affinity q (f r)) (SInteger 1000)) rows)))
      in (avg (\<lambda>(i, c). revenue i), avg (\<lambda>(i, c). net_income i),
          avg (\<lambda>(i, c). operating_cash_flow c)))"

text \<open>
  The report: one section for each query, in the order of the dict, then the summary.
  The frames are given as rows of cells; their layout as text is left to pandas.
\<close>

definition run_analysis_queries :: "sqlite \<Rightarrow> tables \<Rightarrow> (string \<times> sqlval list list) list" where
  "run_analysis_queries q t =
     [(''1. Year-over-Year Revenue Growth'',
         map (\<lambda>(fy, g). [text_cell fy, g]) (revenue_growth q t)),
      (''2. Net Margin by Year'',
         map (\<lambda>(fy, m). [text_cell fy, m]) (net_margin q t)),
      (''3. Assets vs Liabilities YoY Change'',
         map (\<lambda>(fy, a, l). [text_cell fy, a, l]) (balance_change q t)),
      (''4. Operating Cash Flow Trend'',
         map (\<lambda>(fy, c, p). [text_cell fy, c, p]) (cash_flow_trend q t)),
      (''5. Liquidity Indicator'',
         map (\<lambda>(fy, l). [text_cell fy, l]) (liquidity_indicator q t)),
      (''Summary Statistics'',
         (case summary_statistics q t of (a, b, c) \<Rightarrow> [[a, b, c]]))]"

section \<open>The pipeline: \<open>main_flow\<close>\<close>

text \<open>\<open>os.path.basename\<close>: what follows the last slash.\<close>

definition basename :: "string \<Rightarrow> string" where
  "basename p = rev (takeWhile (\<lambda>c. c \<noteq> CHR ''/'') (rev p))"

text \<open>
  The loop over \<open>file_paths\<close>. Each path comes with the session that says how the
  remote service answers while it is processed. \<open>results[key] = value\<close> replaces the
  value of a key the dict has and appends a new key at the end. The result is \<open>None\<close>
  when a polling loop never ends.
\<close>

fun process_files ::
  "(string \<times> session) list \<Rightarrow> (string \<times> json) list \<Rightarrow> call list \<Rightarrow>
   (call list \<times> (exn + (string \<times> json) list)) option"
where
  "process_files [] results calls = Some (calls, Inr results)"
| "process_files ((file_path, s) # rest) results calls =
     (case create_financial_assistant s of
        (c1, Inl e) \<Rightarrow> Some (calls @ c1, Inl e)
      | (c1, Inr assistant_info) \<Rightarrow>
          (case extract_financial_data s assistant_info of
             None \<Rightarrow> None
           | Some (c2, Inl e) \<Rightarrow> Some (calls @ c1 @ c2, Inl e)
           | Some (c2, Inr financial_data) \<Rightarrow>
               process_files rest
                 (AList.update (basename file_path) financial_data results)
                 (calls @ c1 @ c2)))"

text \<open>
  What a run of the flow leaves: the value returned or the exception raised, the calls
  made on the remote service, the database, what was printed by the persistence loop,
  the Parquet files and the report.
\<close>

record flow =
  returned :: "exn + (string \<times> json) list"
  remote_calls :: "call list"
  gold :: tables
  printed_lines :: "printed list"
  parquet_files :: "parquet_file list"
  report :: "(string \<times> sqlval list list) list"

definition main_flow :: "sqlite \<Rightarrow> string \<Rightarrow> (string \<times> session) list \<Rightarrow> flow option" where
  "main_flow q timestamp file_paths =
     (case process_files file_paths [] [] of
        None \<Rightarrow> None
      | Some (calls, Inl e) \<Rightarrow>
          Some \<lparr>returned = Inl e, remote_calls = calls, gold = init_database,
                printed_lines = [], parquet_files = [], report = []\<rparr>
      | Some (calls, Inr results) \<Rightarrow>
          (let s = save_financial_data timestamp init_database results in
           case raised s of
             Some e \<Rightarrow>
               Some \<lparr>returned = Inl e, remote_calls = calls, gold = database s,
                     printed_lines = stdout s, parquet_files = parquet s, report = []\<rparr>
           | None \<Rightarrow>
               Some \<lparr>returned = Inr results, remote_calls = calls, gold = database s,
                     printed_lines = stdout s, parquet_files = parquet s,
                     report = run_analysis_queries q (database s)\<rparr>))"

section \<open>Notions of the specification\<close>

text \<open>
  An optionally signed decimal numeral, in the words of the specification: an optional
  minus sign, one or more digits, and optionally a point followed by one or more digits.
\<close>

definition decimal_numeral :: "string \<Rightarrow> bool" where
  "decimal_numeral s =
     (\<exists>sg ds fr. s = sg @ ds @ fr \<and> (sg = [] \<or> sg = ''-'') \<and> ds \<noteq> [] \<and>
        (\<forall>c\<in>set ds. isdigit c) \<and>
        (fr = [] \<or> (\<exists>fs. fr = CHR ''.'' # fs \<and> fs \<noteq> [] \<and> (\<forall>c\<in>set fs. isdigit c))))"

text \<open>The calls that release a remote resource.\<close>

fun is_release :: "call \<Rightarrow> bool" where
  "is_release (AssistantsDelete a) = True"
| "is_release (FilesDelete f) = True"
| "is_release c = False"

text \<open>
  Sample inputs. A session in which every call succeeds, the run is created \<open>queued\<close>
  and is \<open>in_progress\<close> for the first \<open>n\<close> polls and \<open>completed\<close> afterwards, and the thread
  holds the given messages; the identifiers such a session hands out; and a payload
  that has three of the four groups.
\<close>

definition completed_after :: "nat \<Rightarrow> message list \<Rightarrow> session" where
  "completed_after n ms =
     \<lparr>open_file = None, files_create = Inr ''file-1'', assistants_create = Inr ''asst-1'',
      threads_create = Inr ''thread-1'',
      runs_create = Inr \<lparr>run_id = ''run-1'', status = ''queued''\<rparr>,
      runs_retrieve = (\<lambda>k. Inr \<lparr>run_id = ''run-1'',
                                  status = (if k < n then ''in_progress'' else ''completed'')\<rparr>),
      messages_list = Inr ms, assistants_delete = None, files_delete = None\<rparr>"

definition info1 :: assistant_info where
  "info1 = \<lparr>assistant_id = ''asst-1'', thread_id = ''thread-1'', file_id = ''file-1''\<rparr>"

definition three_groups :: json where
  "three_groups = JObject
     [(''document_info'', JObject [(''company_name'', JString ''Apple Inc.''),
                                   (''fiscal_year'', JString ''2022''),
                                   (''document_type'', JString ''10-K'')]),
      (''income_statement'', JObject [(''revenue'', JInt 394328), (''operating_income'', JInt 119437),
                                      (''net_income'', JInt 99803)]),
      (''balance_sheet'', JObject [(''total_assets'', JInt 352755), (''total_liabilities'', JInt 302083),
                                   (''total_equity'', JInt 50672)])]"

text \<open>
  No document is partially written: the ids of the documents differ, every document
  has exactly one row in each of the three statement tables, and every row of a
  statement table belongs to a document.
\<close>

definition whole_documents :: "tables \<Rightarrow> bool" where
  "whole_documents t =
     (distinct (map document_id (documents t)) \<and>
      list_all (\<lambda>d.
          length (filter (\<lambda>i. income_document_id i = document_id d) (income_statements t)) = 1 \<and>
          length (filter (\<lambda>b. balance_document_id b = document_id d) (balance_sheets t)) = 1 \<and>
          length (filter (\<lambda>c. cash_document_id c = document_id d) (cash_flows t)) = 1)
        (documents t) \<and>
      list_all (\<lambda>i. references_document t (income_document_id i)) (income_statements t) \<and>
      list_all (\<lambda>b. references_document t (balance_document_id b)) (balance_sheets t) \<and>
      list_all (\<lambda>c. references_document t (cash_document_id c)) (cash_flows t))"

text \<open>Sample payloads: a complete record, and a record whose company name is null.\<close>

definition statement :: "string \<Rightarrow> string \<Rightarrow> int \<Rightarrow> int \<Rightarrow> json" where
  "statement company fy rv liabilities = JObject
     [(''document_info'', JObject [(''company_name'', JString company),
                                   (''fiscal_year'', JString fy),
                                   (''document_type'', JString ''10-K'')]),
      (''income_statement'', JObject [(''revenue'', JInt rv), (''operating_income'', JInt 30),
                                      (''net_income'', JInt 20)]),
      (''balance_sheet'', JObject [(''total_assets'', JInt 500), (''total_liabilities'', JInt liabilities),
                                   (''total_equity'', JInt 200)]),
      (''cash_flow'', JObject [(''operating_cash_flow'', JInt 40), (''investing_cash_flow'', JInt (- 10)),
                               (''financing_cash_flow'', JInt (- 5))])]"

definition null_company :: json where
  "null_company = JObject
     [(''document_info'', JObject [(''company_name'', JNull),
                                   (''fiscal_year'', JString ''2021''),
                                   (''document_type'', JString ''10-K'')]),
      (''income_statement'', JObject [(''revenue'', JInt 1), (''operating_income'', JInt 1),
                                      (''net_income'', JInt 1)]),
      (''balance_sheet'', JObject [(''total_assets'', JInt 1), (''total_liabilities'', JInt 1),
                                   (''total_equity'', JInt 1)]),
      (''cash_flow'', JObject [(''operating_cash_flow'', JInt 1), (''investing_cash_flow'', JInt 1),
                               (''financing_cash_flow'', JInt 1)])]"

text \<open>
  What the two tasks make of one input document when both return: the record that
  \<open>extract_financial_data\<close> hands to the flow.
\<close>

definition extracted :: "session \<Rightarrow> json option" where
  "extracted s =
     (case create_financial_assistant s of
        (c1, Inl e) \<Rightarrow> None
      | (c1, Inr assistant_info) \<Rightarrow>
          (case extract_financial_data s assistant_info of
             Some (c2, Inr financial_data) \<Rightarrow> Some financial_data
           | _ \<Rightarrow> None))"

section \<open>Properties of the tag fact scanner\<close>

lemma not_digit_minus [simp]: "\<not> isdigit CHR ''-''"
  by (simp add: isdigit_def)

lemma not_digit_dot [simp]: "\<not> isdigit CHR ''.''"
  by (simp add: isdigit_def)

lemma not_digit_newline [simp]: "\<not> isdigit (CHR 0x0A)"
  by (simp add: isdigit_def)

lemma takeWhile_all:
  "\<forall>c\<in>set ds. P c \<Longrightarrow> (r = [] \<or> \<not> P (hd r)) \<Longrightarrow> takeWhile P (ds @ r) = ds"
  by (induction ds) (auto simp: takeWhile_eq_Nil_iff neq_Nil_conv)

lemma dropWhile_all:
  "\<forall>c\<in>set ds. P c \<Longrightarrow> (r = [] \<or> \<not> P (hd r)) \<Longrightarrow> dropWhile P (ds @ r) = r"
  by (induction ds) (auto simp: dropWhile_eq_self_iff neq_Nil_conv)

lemma takeWhile_all_ne: "ds \<noteq> [] \<Longrightarrow> \<forall>c\<in>set ds. P c \<Longrightarrow> takeWhile P ds \<noteq> []"
  by (cases ds) auto

lemma drop_sign_numeral:
  "(sg = [] \<or> sg = ''-'') \<Longrightarrow> ds \<noteq> [] \<Longrightarrow> \<forall>c\<in>set ds. isdigit c \<Longrightarrow>
   drop_sign (sg @ ds @ r) = ds @ r"
  by (cases ds) (auto simp: drop_sign_def)

text \<open>
  The pattern admits a decimal numeral, alone or followed by a newline: \<open>e\<close> is what
  follows the numeral.
\<close>

lemma decimal_numeral_then_dollar:
  assumes "decimal_numeral u" and e: "at_dollar e"
  shows "numeral_match (u @ e)"
proof -
  from assms(1) obtain sg ds fr where s: "u = sg @ ds @ fr" and sg: "sg = [] \<or> sg = ''-''"
    and ds: "ds \<noteq> []" "\<forall>c\<in>set ds. isdigit c"
    and fr: "fr = [] \<or> (\<exists>fs. fr = CHR ''.'' # fs \<and> fs \<noteq> [] \<and> (\<forall>c\<in>set fs. isdigit c))"
    unfolding decimal_numeral_def by blast
  have h: "e = [] \<or> \<not> isdigit (hd e)" using e by (auto simp: at_dollar_def)
  have d: "drop_sign (u @ e) = ds @ fr @ e"
    using drop_sign_numeral[OF sg ds, of "fr @ e"] by (simp add: s)
  from fr show ?thesis
  proof
    assume f: "fr = []"
    have t: "takeWhile isdigit (ds @ e) = ds" by (rule takeWhile_all[OF ds(2) h])
    have r: "dropWhile isdigit (ds @ e) = e" by (rule dropWhile_all[OF ds(2) h])
    show ?thesis
      using ds e by (simp add: numeral_match_def d f t r)
  next
    assume "\<exists>fs. fr = CHR ''.'' # fs \<and> fs \<noteq> [] \<and> (\<forall>c\<in>set fs. isdigit c)"
    then obtain fs where f: "fr = CHR ''.'' # fs" "fs \<noteq> []" "\<forall>c\<in>set fs. isdigit c"
      by blast
    have t: "takeWhile isdigit (ds @ CHR ''.'' # fs @ e) = ds"
      and r: "dropWhile isdigit (ds @ CHR ''.'' # fs @ e) = CHR ''.'' # fs @ e"
      using ds by (simp_all add: takeWhile_all dropWhile_all)
    have tf: "takeWhile isdigit (fs @ e) = fs" by (rule takeWhile_all[OF f(3) h])
    have rf: "dropWhile isdigit (fs @ e) = e" by (rule dropWhile_all[OF f(3) h])
    show ?thesis
      using ds f(2) e by (simp add: numeral_match_def d f(1) t r tf rf)
  qed
qed

text \<open>The pattern admits nothing else.\<close>

lemma numeral_match_then_dollar:
  assumes "numeral_match s"
  shows "\<exists>u e. s = u @ e \<and> decimal_numeral u \<and> at_dollar e"
proof -
  define sg where "sg = (if s \<noteq> [] \<and> hd s = CHR ''-'' then ''-'' else [])"
  define ds where "ds = takeWhile isdigit (drop_sign s)"
  define r1 where "r1 = dropWhile isdigit (drop_sign s)"
  have s: "s = sg @ ds @ r1"
    by (cases s) (auto simp: sg_def ds_def r1_def drop_sign_def)
  have sg: "sg = [] \<or> sg = ''-''" by (simp add: sg_def)
  have dd: "\<forall>c\<in>set ds. isdigit c" unfolding ds_def by (auto dest: set_takeWhileD)
  from assms have dn: "ds \<noteq> []"
    and c: "(case r1 of [] \<Rightarrow> False
             | c # r2 \<Rightarrow> c = CHR ''.'' \<and> takeWhile isdigit r2 \<noteq> [] \<and>
                 at_dollar (dropWhile isdigit r2)) \<or> at_dollar r1"
    by (simp_all add: numeral_match_def ds_def r1_def Let_def)
  from c show ?thesis
  proof
    assume a: "at_dollar r1"
    have "decimal_numeral (sg @ ds)"
      unfolding decimal_numeral_def using sg dn dd
      by (intro exI[of _ sg] exI[of _ ds] exI[of _ "[]"]) simp
    then show ?thesis using s a by (intro exI[of _ "sg @ ds"] exI[of _ r1]) simp
  next
    assume "case r1 of [] \<Rightarrow> False
             | c # r2 \<Rightarrow> c = CHR ''.'' \<and> takeWhile isdigit r2 \<noteq> [] \<and>
                 at_dollar (dropWhile isdigit r2)"
    then obtain r2 where r: "r1 = CHR ''.'' # r2" and fn: "takeWhile isdigit r2 \<noteq> []"
      and a: "at_dollar (dropWhile isdigit r2)"
      by (cases r1) auto
    let ?fs = "takeWhile isdigit r2"
    have fd: "\<forall>c\<in>set ?fs. isdigit c" by (auto dest: set_takeWhileD)
    have "decimal_numeral (sg @ ds @ CHR ''.'' # ?fs)"
      unfolding decimal_numeral_def using sg dn dd fn fd
      by (intro exI[of _ sg] exI[of _ ds] exI[of _ "CHR ''.'' # ?fs"]) simp
    moreover have "s = (sg @ ds @ CHR ''.'' # ?fs) @ dropWhile isdigit r2"
      using s r by simp
    ultimately show ?thesis using a by blast
  qed
qed

lemma numeral_match_iff:
  "numeral_match s \<longleftrightarrow>
     decimal_numeral s \<or> (\<exists>u. s = u @ [CHR 0x0A] \<and> decimal_numeral u)"
proof
  assume "numeral_match s"
  from numeral_match_then_dollar[OF this] show
    "decimal_numeral s \<or> (\<exists>u. s = u @ [CHR 0x0A] \<and> decimal_numeral u)"
    by (auto simp: at_dollar_def)
next
  assume "decimal_numeral s \<or> (\<exists>u. s = u @ [CHR 0x0A] \<and> decimal_numeral u)"
  then show "numeral_match s"
    using decimal_numeral_then_dollar[of s "[]"] decimal_numeral_then_dollar[of _ "[CHR 0x0A]"]
    by (auto simp: at_dollar_def)
qed


lemma tag_nonfraction_rows: "f \<in> set (nonfraction_rows t) \<Longrightarrow> tag f = ''nonfraction''"
  by (auto simp: nonfraction_rows_def Let_def split: if_splits)

lemma length_nonfraction_rows:
  "length (concat (map nonfraction_rows ts)) =
   length (filter (\<lambda>t. numeral_match (nonfraction_value t)) ts)"
  by (induction ts) (auto simp: nonfraction_rows_def Let_def)



text \<open>
  Claim C9 as stated fails: a non-numeric element that stands before a numeric element
  in the document yields a fact that stands after the numeric fact in the output.
\<close>

theorem document_order_counterexample:
  "document_order
     [Tag ''ix:nonnumeric'' [(''name'', ''dei:DocumentType'')] [NavigableString ''10-K''],
      Tag ''ix:nonfraction'' [(''name'', ''us-gaap:Revenues'')] [NavigableString ''5'']] =
     [Tag ''ix:nonnumeric'' [(''name'', ''dei:DocumentType'')] [NavigableString ''10-K''],
      NavigableString ''10-K'',
      Tag ''ix:nonfraction'' [(''name'', ''us-gaap:Revenues'')] [NavigableString ''5''],
      NavigableString ''5'']
   \<and> extract_features
     [Tag ''ix:nonnumeric'' [(''name'', ''dei:DocumentType'')] [NavigableString ''10-K''],
      Tag ''ix:nonfraction'' [(''name'', ''us-gaap:Revenues'')] [NavigableString ''5'']] =
     [\<lparr>tag = ''nonfraction'', name = ''us-gaap:Revenues'', val = Number (FloatOf ''5''),
       unit = ''Unknown'', decimals = ''Unknown''\<rparr>,
      \<lparr>tag = ''nonnumeric'', name = ''dei:DocumentType'', val = Str ''10-K'',
       unit = ''N/A'', decimals = ''N/A''\<rparr>]"
  by (simp add: document_order_def extract_features_def find_all_def nonfraction_rows_def
        nonfraction_value_def nonnumeric_row_def strip_def isspace_def remove_commas_def
        numeral_match_def at_dollar_def drop_sign_def isdigit_def text_of_def)

text \<open>
  Claim C9, amended. The output is made in two passes: the facts of the numeric
  elements, in document order, followed by the facts of the non-numeric elements, in
  document order. Every matching element gives one fact, none is removed as a
  duplicate, and once a non-numeric fact has appeared only non-numeric facts follow.
\<close>

theorem two_passes_in_document_order:
  "extract_features soup =
     concat (map nonfraction_rows (filter (is_tag_named ''ix:nonfraction'') (document_order soup)))
     @ map nonnumeric_row (filter (is_tag_named ''ix:nonnumeric'') (document_order soup))
   \<and> length (extract_features soup) =
       length (filter (\<lambda>t. is_tag_named ''ix:nonfraction'' t \<and> numeral_match (nonfraction_value t))
                 (document_order soup))
       + length (filter (is_tag_named ''ix:nonnumeric'') (document_order soup))
   \<and> (\<forall>i j. i < j \<and> j < length (extract_features soup) \<and>
          tag (extract_features soup ! i) = ''nonnumeric'' \<longrightarrow>
          tag (extract_features soup ! j) = ''nonnumeric'')"
proof (intro conjI allI impI)
  show e: "extract_features soup =
     concat (map nonfraction_rows (filter (is_tag_named ''ix:nonfraction'') (document_order soup)))
     @ map nonnumeric_row (filter (is_tag_named ''ix:nonnumeric'') (document_order soup))"
    by (simp add: extract_features_def find_all_def)
  show "length (extract_features soup) =
       length (filter (\<lambda>t. is_tag_named ''ix:nonfraction'' t \<and> numeral_match (nonfraction_value t))
                 (document_order soup))
       + length (filter (is_tag_named ''ix:nonnumeric'') (document_order soup))"
    unfolding e by (simp add: length_nonfraction_rows conj_commute del: filter_concat)
  fix i j
  assume a: "i < j \<and> j < length (extract_features soup) \<and>
          tag (extract_features soup ! i) = ''nonnumeric''"
  let ?A = "concat (map nonfraction_rows (find_all ''ix:nonfraction'' soup))"
  let ?B = "map nonnumeric_row (find_all ''ix:nonnumeric'' soup)"
  have x: "extract_features soup = ?A @ ?B" by (simp add: extract_features_def)
  have "\<not> i < length ?A"
  proof
    assume l: "i < length ?A"
    then have "?A ! i \<in> set ?A" by (rule nth_mem)
    then have "(?A @ ?B) ! i \<in> set ?A" using l by (simp only: nth_append if_True)
    then have "tag ((?A @ ?B) ! i) = ''nonfraction''" by (auto dest: tag_nonfraction_rows)
    then show False using a x by simp
  qed
  then have "\<not> j < length ?A" using a by simp
  then have nj: "(?A @ ?B) ! j = ?B ! (j - length ?A)" by (simp only: nth_append if_False)
  have "j < length ?A + length ?B" using a unfolding x by (simp only: length_append)
  then have "j - length ?A < length ?B" using \<open>\<not> j < length ?A\<close> by linarith
  then have "?B ! (j - length ?A) \<in> set ?B" by (rule nth_mem)
  then have "(?A @ ?B) ! j \<in> set ?B" using nj by simp
  then show "tag (extract_features soup ! j) = ''nonnumeric''"
    unfolding x by (auto simp: nonnumeric_row_def)
qed

theorem two_passes_in_document_order_witness:
  "(1 < (2::nat) \<and>
    2 < length (extract_features
     [Tag ''ix:nonnumeric'' [] [NavigableString ''FY''],
      Tag ''ix:nonfraction'' [] [NavigableString ''7''],
      Tag ''ix:nonnumeric'' [] [NavigableString ''Q4'']]) \<and>
    tag (extract_features
     [Tag ''ix:nonnumeric'' [] [NavigableString ''FY''],
      Tag ''ix:nonfraction'' [] [NavigableString ''7''],
      Tag ''ix:nonnumeric'' [] [NavigableString ''Q4'']] ! 1) = ''nonnumeric'')
   \<and> tag (extract_features
     [Tag ''ix:nonnumeric'' [] [NavigableString ''FY''],
      Tag ''ix:nonfraction'' [] [NavigableString ''7''],
      Tag ''ix:nonnumeric'' [] [NavigableString ''Q4'']] ! 2) = ''nonnumeric''"
proof -
  let ?soup = "[Tag ''ix:nonnumeric'' [] [NavigableString ''FY''],
      Tag ''ix:nonfraction'' [] [NavigableString ''7''],
      Tag ''ix:nonnumeric'' [] [NavigableString ''Q4'']]"
  have h: "1 < (2::nat) \<and> 2 < length (extract_features ?soup) \<and>
    tag (extract_features ?soup ! 1) = ''nonnumeric''"
    by (simp add: document_order_def extract_features_def find_all_def nonfraction_rows_def
        nonfraction_value_def nonnumeric_row_def strip_def isspace_def remove_commas_def
        numeral_match_def at_dollar_def drop_sign_def isdigit_def text_of_def)
  from two_passes_in_document_order[of ?soup]
  have "\<forall>i j. i < j \<and> j < length (extract_features ?soup) \<and>
          tag (extract_features ?soup ! i) = ''nonnumeric'' \<longrightarrow>
          tag (extract_features ?soup ! j) = ''nonnumeric''"
    by (elim conjE)
  then have "tag (extract_features ?soup ! 2) = ''nonnumeric''" using h by blast
  then show ?thesis using h by blast
qed

section \<open>Properties of the extraction orchestrator\<close>

text \<open>The polling loop makes no release.\<close>

lemma poll_calls:
  "poll s info k r calls = Some y \<Longrightarrow> filter is_release (fst y) = filter is_release calls"
proof (erule poll.raw_induct[rotated])
  fix p s info k r calls y
  assume ih: "\<And>s info k r calls y. p s info k r calls = Some y \<Longrightarrow>
                 filter is_release (fst y) = filter is_release calls"
    and body: "(if status r \<in> set [''queued'', ''in_progress'']
      then case runs_retrieve s k of
             Inl e \<Rightarrow> Some (calls @ [RunsRetrieve (thread_id info) (run_id r)], Inl e)
           | Inr r' \<Rightarrow> p s info (Suc k) r' (calls @ [RunsRetrieve (thread_id info) (run_id r)])
      else Some (calls, Inr r)) = Some y"
  show "filter is_release (fst y) = filter is_release calls"
  proof (cases "status r \<in> set [''queued'', ''in_progress'']")
    case False
    then show ?thesis using body by auto
  next
    case True
    show ?thesis
    proof (cases "runs_retrieve s k")
      case (Inl e)
      then show ?thesis using body True by auto
    next
      case (Inr r')
      then have "p s info (Suc k) r' (calls @ [RunsRetrieve (thread_id info) (run_id r)]) = Some y"
        using body True by simp
      from ih[OF this] show ?thesis by simp
    qed
  qed
qed

lemma extract_data:
  assumes "extract_financial_data s info = Some (calls, Inr data)"
  shows "\<exists>messages. messages_list s = Inr messages \<and> data = scan_messages messages"
  using assms
  by (auto simp: extract_financial_data_def Let_def split: sum.splits option.splits prod.splits)

lemma scan_messages_find:
  "scan_messages ms =
     (case find (\<lambda>m. role m = ''assistant'') ms of
        None \<Rightarrow> default_data
      | Some m \<Rightarrow> (case loads_first_block (content m) of Inr j \<Rightarrow> j | Inl e \<Rightarrow> default_data))"
  by (induction ms) auto

text \<open>
  Claim C1 as stated fails: when a call on the remote service raises, the exception
  leaves the function and the releases not yet made are not made. If creating the run
  raises, nothing is released; if deleting the assistant raises, the file is not deleted.
\<close>

theorem release_counterexample:
  "extract_financial_data
     ((completed_after 0 [\<lparr>role = ''assistant'', content = [TextBlock (Loads three_groups)]\<rparr>])
        \<lparr>runs_create := Inl APIError\<rparr>) info1 =
     Some ([RunsCreate ''thread-1'' ''asst-1''], Inl APIError)
   \<and> extract_financial_data
     ((completed_after 0 [\<lparr>role = ''assistant'', content = [TextBlock (Loads three_groups)]\<rparr>])
        \<lparr>assistants_delete := Some APIError\<rparr>) info1 =
     Some ([RunsCreate ''thread-1'' ''asst-1'', RunsRetrieve ''thread-1'' ''run-1'',
            MessagesList ''thread-1'', AssistantsDelete ''asst-1''], Inl APIError)"
  by (simp add: extract_financial_data_def completed_after_def info1_def poll.simps)

text \<open>
  Claim C1, amended. On every run that returns a record, whether the payload was
  decoded or the default was substituted, the assistant and the file are each released
  exactly once, the assistant first. On a run that ends with an exception nothing is
  released twice: either nothing was released, or the deletion of the assistant raised,
  or the deletion of the file raised.
\<close>

theorem released_once_when_returning:
  assumes "extract_financial_data s info = Some (calls, res)"
  shows "case res of
           Inr data \<Rightarrow>
             filter is_release calls =
               [AssistantsDelete (assistant_id info), FilesDelete (file_id info)]
         | Inl e \<Rightarrow>
             filter is_release calls = [] \<or>
             filter is_release calls = [AssistantsDelete (assistant_id info)]
               \<and> assistants_delete s = Some e \<or>
             filter is_release calls =
               [AssistantsDelete (assistant_id info), FilesDelete (file_id info)]
               \<and> files_delete s = Some e"
proof (cases "runs_create s")
  case (Inl e)
  then show ?thesis using assms by (auto simp: extract_financial_data_def)
next
  case (Inr r0)
  let ?c1 = "[RunsCreate (thread_id info) (assistant_id info)]"
  from assms Inr obtain c2 pr where p: "poll s info 0 r0 ?c1 = Some (c2, pr)"
    by (auto simp: extract_financial_data_def split: option.splits)
  from poll_calls[OF p] have f: "filter is_release c2 = []" by simp
  show ?thesis
    using assms Inr p f
    by (auto simp: extract_financial_data_def Let_def split: sum.splits option.splits)
qed

theorem released_once_when_returning_witness:
  "extract_financial_data
     (completed_after 2 [\<lparr>role = ''user'', content = []\<rparr>,
                         \<lparr>role = ''assistant'', content = [TextBlock Malformed]\<rparr>]) info1 =
     Some ([RunsCreate ''thread-1'' ''asst-1'', RunsRetrieve ''thread-1'' ''run-1'',
            RunsRetrieve ''thread-1'' ''run-1'', RunsRetrieve ''thread-1'' ''run-1'',
            MessagesList ''thread-1'', AssistantsDelete ''asst-1'', FilesDelete ''file-1''],
           Inr default_data)
   \<and> filter is_release
        [RunsCreate ''thread-1'' ''asst-1'', RunsRetrieve ''thread-1'' ''run-1'',
         RunsRetrieve ''thread-1'' ''run-1'', RunsRetrieve ''thread-1'' ''run-1'',
         MessagesList ''thread-1'', AssistantsDelete ''asst-1'', FilesDelete ''file-1''] =
        [AssistantsDelete ''asst-1'', FilesDelete ''file-1'']"
proof -
  let ?s = "completed_after 2 [\<lparr>role = ''user'', content = []\<rparr>,
                         \<lparr>role = ''assistant'', content = [TextBlock Malformed]\<rparr>]"
  let ?calls = "[RunsCreate ''thread-1'' ''asst-1'', RunsRetrieve ''thread-1'' ''run-1'',
            RunsRetrieve ''thread-1'' ''run-1'', RunsRetrieve ''thread-1'' ''run-1'',
            MessagesList ''thread-1'', AssistantsDelete ''asst-1'', FilesDelete ''file-1'']"
  have h: "extract_financial_data ?s info1 = Some (?calls, Inr default_data)"
    by (simp add: extract_financial_data_def completed_after_def info1_def poll.simps)
  from released_once_when_returning[OF h]
  have "filter is_release ?calls = [AssistantsDelete ''asst-1'', FilesDelete ''file-1'']"
    by (simp add: info1_def)
  with h show ?thesis by simp
qed

text \<open>
  Claim C6 as stated fails for a payload that is valid JSON but does not have the
  canonical shape: it is returned as decoded, not replaced by the default record.
\<close>

theorem schema_mismatch_counterexample:
  "extract_financial_data
     (completed_after 0
        [\<lparr>role = ''assistant'',
          content = [TextBlock (Loads (JObject [(''answer'', JString ''n/a'')]))]\<rparr>]) info1 =
     Some ([RunsCreate ''thread-1'' ''asst-1'', RunsRetrieve ''thread-1'' ''run-1'',
            MessagesList ''thread-1'', AssistantsDelete ''asst-1'', FilesDelete ''file-1''],
           Inr (JObject [(''answer'', JString ''n/a'')]))
   \<and> JObject [(''answer'', JString ''n/a'')] \<noteq> default_data"
  by (simp add: extract_financial_data_def completed_after_def info1_def poll.simps
        default_data_def)

text \<open>
  Claim C6, amended. A run that returns, and in which there is no message of the
  assistant or the first message of the assistant cannot be decoded (no content block,
  a block without text, or malformed JSON), returns the fixed default record: company
  name "Unknown", fiscal year "2023", document type "10-K", and 0 in each of the nine
  numeric fields.
\<close>

theorem undecodable_gives_default:
  "extract_financial_data s info = Some (calls, Inr data) \<Longrightarrow>
   messages_list s = Inr messages \<Longrightarrow>
   find (\<lambda>m. role m = ''assistant'') messages = None \<or>
   (\<exists>m e. find (\<lambda>m. role m = ''assistant'') messages = Some m \<and>
          loads_first_block (content m) = Inl e) \<Longrightarrow>
   data = default_data \<and>
   getitem2 data ''document_info'' ''company_name'' = Inr (JString ''Unknown'') \<and>
   getitem2 data ''document_info'' ''fiscal_year'' = Inr (JString ''2023'') \<and>
   getitem2 data ''document_info'' ''document_type'' = Inr (JString ''10-K'') \<and>
   getitem2 data ''income_statement'' ''revenue'' = Inr (JInt 0) \<and>
   getitem2 data ''income_statement'' ''operating_income'' = Inr (JInt 0) \<and>
   getitem2 data ''income_statement'' ''net_income'' = Inr (JInt 0) \<and>
   getitem2 data ''balance_sheet'' ''total_assets'' = Inr (JInt 0) \<and>
   getitem2 data ''balance_sheet'' ''total_liabilities'' = Inr (JInt 0) \<and>
   getitem2 data ''balance_sheet'' ''total_equity'' = Inr (JInt 0) \<and>
   getitem2 data ''cash_flow'' ''operating_cash_flow'' = Inr (JInt 0) \<and>
   getitem2 data ''cash_flow'' ''investing_cash_flow'' = Inr (JInt 0) \<and>
   getitem2 data ''cash_flow'' ''financing_cash_flow'' = Inr (JInt 0)"
proof -
  assume a: "extract_financial_data s info = Some (calls, Inr data)"
    and m: "messages_list s = Inr messages"
    and u: "find (\<lambda>m. role m = ''assistant'') messages = None \<or>
       (\<exists>m e. find (\<lambda>m. role m = ''assistant'') messages = Some m \<and>
          loads_first_block (content m) = Inl e)"
  from extract_data[OF a] m have "data = scan_messages messages" by simp
  with u have d: "data = default_data" by (auto simp: scan_messages_find)
  show ?thesis unfolding d by (simp add: default_data_def getitem2_def bnd_def)
qed

theorem undecodable_gives_default_witness:
  "extract_financial_data
     (completed_after 1 [\<lparr>role = ''user'', content = []\<rparr>,
                         \<lparr>role = ''assistant'', content = [TextBlock Malformed]\<rparr>]) info1 =
     Some ([RunsCreate ''thread-1'' ''asst-1'', RunsRetrieve ''thread-1'' ''run-1'',
            RunsRetrieve ''thread-1'' ''run-1'',
            MessagesList ''thread-1'', AssistantsDelete ''asst-1'', FilesDelete ''file-1''],
           Inr default_data)
   \<and> extract_financial_data (completed_after 0 [\<lparr>role = ''user'', content = []\<rparr>]) info1 =
     Some ([RunsCreate ''thread-1'' ''asst-1'', RunsRetrieve ''thread-1'' ''run-1'',
            MessagesList ''thread-1'', AssistantsDelete ''asst-1'', FilesDelete ''file-1''],
           Inr default_data)
   \<and> getitem2 default_data ''document_info'' ''fiscal_year'' = Inr (JString ''2023'')
   \<and> getitem2 default_data ''cash_flow'' ''financing_cash_flow'' = Inr (JInt 0)"
proof -
  let ?ms1 = "[\<lparr>role = ''user'', content = []\<rparr>,
               \<lparr>role = ''assistant'', content = [TextBlock Malformed]\<rparr>]"
  let ?ms2 = "[\<lparr>role = ''user'', content = []\<rparr>]"
  obtain c1 d1 where h1: "extract_financial_data (completed_after 1 ?ms1) info1 = Some (c1, Inr d1)"
    and c1: "c1 = [RunsCreate ''thread-1'' ''asst-1'', RunsRetrieve ''thread-1'' ''run-1'',
            RunsRetrieve ''thread-1'' ''run-1'',
            MessagesList ''thread-1'', AssistantsDelete ''asst-1'', FilesDelete ''file-1'']"
    by (simp add: extract_financial_data_def completed_after_def info1_def poll.simps)
  obtain c2 d2 where h2: "extract_financial_data (completed_after 0 ?ms2) info1 = Some (c2, Inr d2)"
    and c2: "c2 = [RunsCreate ''thread-1'' ''asst-1'', RunsRetrieve ''thread-1'' ''run-1'',
            MessagesList ''thread-1'', AssistantsDelete ''asst-1'', FilesDelete ''file-1'']"
    by (simp add: extract_financial_data_def completed_after_def info1_def poll.simps)
  have m1: "messages_list (completed_after 1 ?ms1) = Inr ?ms1"
    and m2: "messages_list (completed_after 0 ?ms2) = Inr ?ms2"
    by (simp_all add: completed_after_def)
  have u1: "find (\<lambda>m. role m = ''assistant'') ?ms1 = None \<or>
       (\<exists>m e. find (\<lambda>m. role m = ''assistant'') ?ms1 = Some m \<and>
          loads_first_block (content m) = Inl e)"
    by simp
  have u2: "find (\<lambda>m. role m = ''assistant'') ?ms2 = None \<or>
       (\<exists>m e. find (\<lambda>m. role m = ''assistant'') ?ms2 = Some m \<and>
          loads_first_block (content m) = Inl e)"
    by simp
  note r1 = undecodable_gives_default[OF h1 m1 u1]
  note r2 = undecodable_gives_default[OF h2 m2 u2]
  from r1 have e1: "d1 = default_data"
    and f1: "getitem2 d1 ''document_info'' ''fiscal_year'' = Inr (JString ''2023'')"
    and g1: "getitem2 d1 ''cash_flow'' ''financing_cash_flow'' = Inr (JInt 0)"
    by blast+
  from r2 have e2: "d2 = default_data" by blast
  show ?thesis using h1 h2 f1 g1 unfolding e1 e2 c1 c2 by (intro conjI)
qed

text \<open>
  Claim C2 as stated fails: a payload without the group \<open>cash_flow\<close> is handed on
  without it; reading the group raises KeyError, no default group is put in its place.
\<close>

theorem missing_group_counterexample:
  "extract_financial_data
     (completed_after 0 [\<lparr>role = ''assistant'', content = [TextBlock (Loads three_groups)]\<rparr>])
     info1 =
     Some ([RunsCreate ''thread-1'' ''asst-1'', RunsRetrieve ''thread-1'' ''run-1'',
            MessagesList ''thread-1'', AssistantsDelete ''asst-1'', FilesDelete ''file-1''],
           Inr three_groups)
   \<and> getitem three_groups ''cash_flow'' = Inl (KeyError ''cash_flow'')
   \<and> getitem default_data ''cash_flow'' =
       Inr (JObject [(''operating_cash_flow'', JInt 0), (''investing_cash_flow'', JInt 0),
                     (''financing_cash_flow'', JInt 0)])"
  by (simp add: extract_financial_data_def completed_after_def info1_def poll.simps
        three_groups_def default_data_def)

text \<open>
  Claim C2, amended. When the first message of the assistant is decoded, the record
  handed downstream is the decoded payload itself: every group it has keeps its value
  and a group it lacks stays absent.
\<close>

theorem decoded_payload_unchanged:
  "extract_financial_data s info = Some (calls, Inr data) \<Longrightarrow>
   messages_list s = Inr messages \<Longrightarrow>
   find (\<lambda>m. role m = ''assistant'') messages = Some m \<Longrightarrow>
   loads_first_block (content m) = Inr raw \<Longrightarrow>
   data = raw \<and>
   getitem data ''document_info'' = getitem raw ''document_info'' \<and>
   getitem data ''income_statement'' = getitem raw ''income_statement'' \<and>
   getitem data ''balance_sheet'' = getitem raw ''balance_sheet'' \<and>
   getitem data ''cash_flow'' = getitem raw ''cash_flow''"
proof -
  assume a: "extract_financial_data s info = Some (calls, Inr data)"
    and m: "messages_list s = Inr messages"
    and f: "find (\<lambda>m. role m = ''assistant'') messages = Some m"
    and l: "loads_first_block (content m) = Inr raw"
  from extract_data[OF a] m have "data = scan_messages messages" by simp
  with f l have "data = raw" by (simp add: scan_messages_find)
  then show ?thesis by simp
qed

theorem decoded_payload_unchanged_witness:
  "extract_financial_data
     (completed_after 0 [\<lparr>role = ''assistant'', content = [TextBlock (Loads three_groups)]\<rparr>])
     info1 =
     Some ([RunsCreate ''thread-1'' ''asst-1'', RunsRetrieve ''thread-1'' ''run-1'',
            MessagesList ''thread-1'', AssistantsDelete ''asst-1'', FilesDelete ''file-1''],
           Inr three_groups)
   \<and> getitem three_groups ''balance_sheet'' =
       Inr (JObject [(''total_assets'', JInt 352755), (''total_liabilities'', JInt 302083),
                     (''total_equity'', JInt 50672)])"
proof -
  let ?ms = "[\<lparr>role = ''assistant'', content = [TextBlock (Loads three_groups)]\<rparr>]"
  obtain c d where h: "extract_financial_data (completed_after 0 ?ms) info1 = Some (c, Inr d)"
    and c: "c = [RunsCreate ''thread-1'' ''asst-1'', RunsRetrieve ''thread-1'' ''run-1'',
            MessagesList ''thread-1'', AssistantsDelete ''asst-1'', FilesDelete ''file-1'']"
    by (simp add: extract_financial_data_def completed_after_def info1_def poll.simps)
  have m: "messages_list (completed_after 0 ?ms) = Inr ?ms" by (simp add: completed_after_def)
  have f: "find (\<lambda>m. role m = ''assistant'') ?ms = Some (hd ?ms)" by simp
  have l: "loads_first_block (content (hd ?ms)) = Inr three_groups" by simp
  from decoded_payload_unchanged[OF h m f l] have "d = three_groups" by simp
  with h c show ?thesis by (simp add: three_groups_def)
qed

section \<open>Properties of the persistence layer\<close>

lemma next_id_fresh: "next_id ids \<notin> set ids"
proof
  assume a: "next_id ids \<in> set ids"
  then have "ids \<noteq> []" by auto
  then have "next_id ids = Max (set ids) + 1" by (simp add: next_id_def)
  moreover have "next_id ids \<le> Max (set ids)" using a by simp
  ultimately show False by simp
qed

lemma insert_document_cases:
  assumes "insert_document p t = (r, t')"
  shows "(\<exists>e. r = Inl e \<and> t' = t) \<or>
         (r = Inr (next_id (map document_id (documents t))) \<and>
          document_id (last (documents t')) = next_id (map document_id (documents t)) \<and>
          t' = t\<lparr>documents := documents t @ [last (documents t')]\<rparr>)"
proof -
  obtain x y z where p: "p = (x, y, z)" by (cases p) auto
  show ?thesis
    using assms unfolding p
    by (auto simp: Let_def split: sum.splits if_splits)
qed

lemma insert_income_statement_cases:
  assumes "insert_income_statement (d, p) t = (r, t')"
  shows "(\<exists>e. r = Some e \<and> t' = t) \<or>
         (r = None \<and> references_document t d \<and>
          income_document_id (last (income_statements t')) = d \<and>
          t' = t\<lparr>income_statements := income_statements t @ [last (income_statements t')]\<rparr>)"
proof -
  obtain x y z where p: "p = (x, y, z)" by (cases p) auto
  show ?thesis
    using assms unfolding p
    by (auto simp: Let_def split: sum.splits if_splits)
qed

lemma insert_balance_sheet_cases:
  assumes "insert_balance_sheet (d, p) t = (r, t')"
  shows "(\<exists>e. r = Some e \<and> t' = t) \<or>
         (r = None \<and> references_document t d \<and>
          balance_document_id (last (balance_sheets t')) = d \<and>
          t' = t\<lparr>balance_sheets := balance_sheets t @ [last (balance_sheets t')]\<rparr>)"
proof -
  obtain x y z where p: "p = (x, y, z)" by (cases p) auto
  show ?thesis
    using assms unfolding p
    by (auto simp: Let_def split: sum.splits if_splits)
qed

lemma insert_cash_flow_cases:
  assumes "insert_cash_flow (d, p) t = (r, t')"
  shows "(\<exists>e. r = Some e \<and> t' = t) \<or>
         (r = None \<and> references_document t d \<and>
          cash_document_id (last (cash_flows t')) = d \<and>
          t' = t\<lparr>cash_flows := cash_flows t @ [last (cash_flows t')]\<rparr>)"
proof -
  obtain x y z where p: "p = (x, y, z)" by (cases p) auto
  show ?thesis
    using assms unfolding p
    by (auto simp: Let_def split: sum.splits if_splits)
qed

text \<open>A document written without an exception adds one row to each table, under a new id.\<close>

lemma try_body_success:
  assumes "try_body doc_info data t = (None, t')"
  shows "\<exists>dr ir br cr.
           document_id dr = next_id (map document_id (documents t)) \<and>
           income_document_id ir = document_id dr \<and>
           balance_document_id br = document_id dr \<and>
           cash_document_id cr = document_id dr \<and>
           t' = \<lparr>documents = documents t @ [dr],
                 income_statements = income_statements t @ [ir],
                 balance_sheets = balance_sheets t @ [br],
                 cash_flows = cash_flows t @ [cr]\<rparr>"
proof -
  from assms obtain p where
    p: "bnd (getitem doc_info ''company_name'') (\<lambda>x.
           bnd (getitem doc_info ''fiscal_year'') (\<lambda>y.
           bnd (getitem doc_info ''document_type'') (\<lambda>z. Inr (x, y, z)))) = Inr p"
    by (auto simp: try_body_def split: sum.splits)
  from assms p obtain d t1 where
    i0: "insert_document p t = (Inr d, t1)"
    by (auto simp: try_body_def split: sum.splits prod.splits)
  from assms p i0 obtain p1 where
    g1: "group_values data ''income_statement'' ''revenue'' ''operating_income'' ''net_income'' = Inr p1"
    by (auto simp: try_body_def split: sum.splits prod.splits)
  from assms p i0 g1 obtain t2 where
    i1: "insert_income_statement (d, p1) t1 = (None, t2)"
    by (auto simp: try_body_def split: sum.splits prod.splits option.splits)
  from assms p i0 g1 i1 obtain p2 where
    g2: "group_values data ''balance_sheet'' ''total_assets'' ''total_liabilities'' ''total_equity'' = Inr p2"
    by (auto simp: try_body_def split: sum.splits prod.splits option.splits)
  from assms p i0 g1 i1 g2 obtain t3 where
    i2: "insert_balance_sheet (d, p2) t2 = (None, t3)"
    by (auto simp: try_body_def split: sum.splits prod.splits option.splits)
  from assms p i0 g1 i1 g2 i2 obtain p3 where
    g3: "group_values data ''cash_flow'' ''operating_cash_flow'' ''investing_cash_flow'' ''financing_cash_flow'' = Inr p3"
    by (auto simp: try_body_def split: sum.splits prod.splits option.splits)
  from assms p i0 g1 i1 g2 i2 g3 have
    i3: "insert_cash_flow (d, p3) t3 = (None, t')"
    by (auto simp: try_body_def split: sum.splits prod.splits option.splits)
  from insert_document_cases[OF i0] obtain dr where
    dr: "d = document_id dr" "document_id dr = next_id (map document_id (documents t))"
      "t1 = t\<lparr>documents := documents t @ [dr]\<rparr>" by auto
  from insert_income_statement_cases[OF i1] obtain ir where
    ir: "income_document_id ir = d" "t2 = t1\<lparr>income_statements := income_statements t1 @ [ir]\<rparr>"
    by auto
  from insert_balance_sheet_cases[OF i2] obtain br where
    br: "balance_document_id br = d" "t3 = t2\<lparr>balance_sheets := balance_sheets t2 @ [br]\<rparr>"
    by auto
  from insert_cash_flow_cases[OF i3] obtain cr where
    cr: "cash_document_id cr = d" "t' = t3\<lparr>cash_flows := cash_flows t3 @ [cr]\<rparr>"
    by auto
  show ?thesis
    using dr ir br cr by (intro exI[of _ dr] exI[of _ ir] exI[of _ br] exI[of _ cr]) simp
qed


lemma whole_documents_extend:
  assumes w: "whole_documents t"
    and d: "document_id dr = next_id (map document_id (documents t))"
    and i: "income_document_id ir = document_id dr"
    and b: "balance_document_id br = document_id dr"
    and c: "cash_document_id cr = document_id dr"
  shows "whole_documents
           \<lparr>documents = documents t @ [dr], income_statements = income_statements t @ [ir],
            balance_sheets = balance_sheets t @ [br], cash_flows = cash_flows t @ [cr]\<rparr>"
proof -
  have fresh: "document_id dr \<notin> set (map document_id (documents t))"
    unfolding d by (rule next_id_fresh)
  have old1: "document_id x \<noteq> document_id dr" if "x \<in> set (documents t)" for x
    using fresh that by (metis image_eqI set_map)
  have old2: "document_id dr \<noteq> document_id x" if "x \<in> set (documents t)" for x
    using fresh that by (metis image_eqI set_map)
  note old = old1 old2
  have "income_document_id x \<noteq> document_id dr" if "x \<in> set (income_statements t)" for x
  proof -
    have "income_document_id x \<in> set (map document_id (documents t))"
      using w that by (simp add: whole_documents_def list_all_iff references_document_def)
    then show ?thesis using fresh by metis
  qed
  then have ni: "filter (\<lambda>i. income_document_id i = document_id dr) (income_statements t) = []"
    by (simp add: filter_empty_conv)
  have "balance_document_id x \<noteq> document_id dr" if "x \<in> set (balance_sheets t)" for x
  proof -
    have "balance_document_id x \<in> set (map document_id (documents t))"
      using w that by (simp add: whole_documents_def list_all_iff references_document_def)
    then show ?thesis using fresh by metis
  qed
  then have nb: "filter (\<lambda>i. balance_document_id i = document_id dr) (balance_sheets t) = []"
    by (simp add: filter_empty_conv)
  have "cash_document_id x \<noteq> document_id dr" if "x \<in> set (cash_flows t)" for x
  proof -
    have "cash_document_id x \<in> set (map document_id (documents t))"
      using w that by (simp add: whole_documents_def list_all_iff references_document_def)
    then show ?thesis using fresh by metis
  qed
  then have nc: "filter (\<lambda>i. cash_document_id i = document_id dr) (cash_flows t) = []"
    by (simp add: filter_empty_conv)
  show ?thesis
    using w fresh
    by (auto simp: whole_documents_def list_all_iff references_document_def ni nb nc i b c old)
qed

lemma save_documents_steps:
  assumes "save_documents results c out = (r, c', out')" and "pending c = committed c"
  shows "pending c' = committed c' \<and>
         (\<exists>n. documents (committed c') = documents (committed c) @ n) \<and>
         (\<exists>n. income_statements (committed c') = income_statements (committed c) @ n) \<and>
         (\<exists>n. balance_sheets (committed c') = balance_sheets (committed c) @ n) \<and>
         (\<exists>n. cash_flows (committed c') = cash_flows (committed c) @ n) \<and>
         (\<exists>n. out' = out @ n) \<and>
         (r = None \<longrightarrow>
            length (documents (committed c')) + length out' =
            length (documents (committed c)) + length out + length results) \<and>
         (whole_documents (committed c) \<longrightarrow> whole_documents (committed c'))"
  using assms
proof (induction results arbitrary: c out)
  case Nil
  then show ?case by simp
next
  case (Cons a rest)
  obtain filename data where a: "a = (filename, data)" by (cases a) auto
  show ?case
  proof (cases "getitem data ''document_info''")
    case (Inl e)
    then show ?thesis using Cons.prems by (auto simp: a)
  next
    case (Inr doc_info)
    obtain x t where tb: "try_body doc_info data (pending c) = (x, t)"
      by (cases "try_body doc_info data (pending c)") auto
    show ?thesis
    proof (cases x)
      case None
      let ?c1 = "commit (c\<lparr>pending := t\<rparr>)"
      from tb None try_body_success obtain dr ir br cr where
        n: "document_id dr = next_id (map document_id (documents (pending c)))"
          "income_document_id ir = document_id dr" "balance_document_id br = document_id dr"
          "cash_document_id cr = document_id dr"
          "t = \<lparr>documents = documents (pending c) @ [dr],
                 income_statements = income_statements (pending c) @ [ir],
                 balance_sheets = balance_sheets (pending c) @ [br],
                 cash_flows = cash_flows (pending c) @ [cr]\<rparr>"
        by blast
      have s: "save_documents rest ?c1 out = (r, c', out')"
        using Cons.prems(1) Inr tb None by (simp add: a)
      have p1: "pending ?c1 = committed ?c1" by (simp add: commit_def)
      have c1: "committed ?c1 = t" by (simp add: commit_def)
      have w1: "whole_documents (committed c) \<longrightarrow> whole_documents (committed ?c1)"
        using whole_documents_extend[OF _ n(1-4)] Cons.prems(2) by (simp add: commit_def n(5))
      from Cons.IH[OF s p1] w1 show ?thesis
        unfolding c1 using Cons.prems(2) by (auto simp: n(5))
    next
      case (Some e)
      let ?c1 = "rollback (c\<lparr>pending := t\<rparr>)"
      have s: "save_documents rest ?c1 (out @ [handler_message filename e]) = (r, c', out')"
        using Cons.prems(1) Inr tb Some by (simp add: a)
      have p1: "pending ?c1 = committed ?c1" by (simp add: rollback_def)
      have c1: "committed ?c1 = committed c" by (simp add: rollback_def)
      from Cons.IH[OF s p1] show ?thesis
        unfolding c1 by auto
    qed
  qed
qed

lemma save_documents_append:
  "save_documents (pre @ post) c out =
     (case save_documents pre c out of
        (None, c', out') \<Rightarrow> save_documents post c' out'
      | (Some e, c', out') \<Rightarrow> (Some e, c', out'))"
proof (induction pre arbitrary: c out)
  case Nil
  then show ?case by simp
next
  case (Cons a pre)
  obtain filename data where a: "a = (filename, data)" by (cases a) auto
  show ?case
    by (simp add: a Cons.IH split: sum.splits prod.splits option.splits)
qed

lemma save_to_sqlite_steps:
  assumes "save_to_sqlite db results = (r, db', out)"
  shows "(\<exists>n. documents db' = documents db @ n) \<and>
         (\<exists>n. income_statements db' = income_statements db @ n) \<and>
         (\<exists>n. balance_sheets db' = balance_sheets db @ n) \<and>
         (\<exists>n. cash_flows db' = cash_flows db @ n) \<and>
         (r = None \<longrightarrow> length (documents db') + length out = length (documents db) + length results) \<and>
         (whole_documents db \<longrightarrow> whole_documents db')"
proof -
  obtain r0 c out0 where s: "save_documents results (connect db) [] = (r0, c, out0)"
    by (cases "save_documents results (connect db) []") auto
  have p: "pending (connect db) = committed (connect db)" by (simp add: connect_def)
  have d: "db' = committed c" "r = r0" "out = out0"
    using assms s save_documents_steps[OF s p]
    by (auto simp: save_to_sqlite_def close_def commit_def split: option.splits)
  from save_documents_steps[OF s p] show ?thesis
    unfolding d by (simp add: connect_def)
qed

lemma save_to_sqlite_append:
  assumes "save_to_sqlite db pre = (r1, db1, out1)"
    and "save_to_sqlite db (pre @ post) = (r2, db2, out2)"
  shows "(\<exists>n. documents db2 = documents db1 @ n) \<and>
         (\<exists>n. income_statements db2 = income_statements db1 @ n) \<and>
         (\<exists>n. balance_sheets db2 = balance_sheets db1 @ n) \<and>
         (\<exists>n. cash_flows db2 = cash_flows db1 @ n)"
proof -
  obtain r0 c out0 where s: "save_documents pre (connect db) [] = (r0, c, out0)"
    by (cases "save_documents pre (connect db) []") auto
  have p: "pending (connect db) = committed (connect db)" by (simp add: connect_def)
  note st = save_documents_steps[OF s p]
  have d1: "db1 = committed c"
    using assms(1) s st
    by (auto simp: save_to_sqlite_def close_def commit_def split: option.splits)
  show ?thesis
  proof (cases r0)
    case (Some e)
    then have "db2 = committed c"
      using assms(2) s by (simp add: save_to_sqlite_def save_documents_append close_def)
    then show ?thesis using d1 by simp
  next
    case None
    obtain r3 c3 out3 where s3: "save_documents post c out0 = (r3, c3, out3)"
      by (cases "save_documents post c out0") auto
    have p3: "pending c = committed c" using st by simp
    note st3 = save_documents_steps[OF s3 p3]
    have "db2 = committed c3"
      using assms(2) s None s3 st3
      by (auto simp: save_to_sqlite_def save_documents_append close_def commit_def
            split: option.splits)
    then show ?thesis using d1 st3 by simp
  qed
qed

lemma save_financial_data_sqlite:
  "database (save_financial_data ts db results) = fst (snd (save_to_sqlite db results))"
  "stdout (save_financial_data ts db results) = snd (snd (save_to_sqlite db results))"
  "raised (save_financial_data ts db results) = None \<Longrightarrow> fst (save_to_sqlite db results) = None"
  by (auto simp: save_financial_data_def split: prod.splits option.splits)

text \<open>
  Claim C4. Starting from a database in which no document is partially written, none
  is partially written after \<open>save_financial_data\<close>, whatever it returns or raises.
  What a batch has committed stays as it is when more documents follow: the tables
  after a batch are extended, never changed, by the documents that come after it. And
  when the function returns, the documents table has grown by the number of documents
  of the batch less the number of failures printed.
\<close>

theorem documents_persist_whole:
  assumes "whole_documents db"
  shows "whole_documents (database (save_financial_data ts db (pre @ post)))
    \<and> (\<exists>n. documents (database (save_financial_data ts db (pre @ post))) =
            documents (database (save_financial_data ts db pre)) @ n)
    \<and> (\<exists>n. income_statements (database (save_financial_data ts db (pre @ post))) =
            income_statements (database (save_financial_data ts db pre)) @ n)
    \<and> (\<exists>n. balance_sheets (database (save_financial_data ts db (pre @ post))) =
            balance_sheets (database (save_financial_data ts db pre)) @ n)
    \<and> (\<exists>n. cash_flows (database (save_financial_data ts db (pre @ post))) =
            cash_flows (database (save_financial_data ts db pre)) @ n)
    \<and> (raised (save_financial_data ts db (pre @ post)) = None \<longrightarrow>
         length (documents (database (save_financial_data ts db (pre @ post))))
           + length (stdout (save_financial_data ts db (pre @ post)))
         = length (documents db) + length (pre @ post))"
proof -
  obtain r1 db1 out1 where s1: "save_to_sqlite db pre = (r1, db1, out1)"
    by (cases "save_to_sqlite db pre") auto
  obtain r2 db2 out2 where s2: "save_to_sqlite db (pre @ post) = (r2, db2, out2)"
    by (cases "save_to_sqlite db (pre @ post)") auto
  note a = save_to_sqlite_steps[OF s2]
  note b = save_to_sqlite_append[OF s1 s2]
  have n: "raised (save_financial_data ts db (pre @ post)) = None \<Longrightarrow> r2 = None"
    using save_financial_data_sqlite(3)[of ts db "pre @ post"] s2 by simp
  show ?thesis
    using assms a b n unfolding save_financial_data_sqlite(1,2) s1 s2 by simp
qed

theorem documents_persist_whole_witness:
  "whole_documents init_database
   \<and> whole_documents (database (save_financial_data ''20240101_120000'' init_database
        ([(''a.pdf'', statement ''Apple Inc.'' ''2020'' 100 300)] @
         [(''b.pdf'', null_company), (''c.pdf'', statement ''Apple Inc.'' ''2022'' 150 0)])))
   \<and> raised (save_financial_data ''20240101_120000'' init_database
        ([(''a.pdf'', statement ''Apple Inc.'' ''2020'' 100 300)] @
         [(''b.pdf'', null_company), (''c.pdf'', statement ''Apple Inc.'' ''2022'' 150 0)])) = None
   \<and> stdout (save_financial_data ''20240101_120000'' init_database
        ([(''a.pdf'', statement ''Apple Inc.'' ''2020'' 100 300)] @
         [(''b.pdf'', null_company), (''c.pdf'', statement ''Apple Inc.'' ''2022'' 150 0)])) =
       [Error_saving_data ''b.pdf'' IntegrityError]
   \<and> length (documents (database (save_financial_data ''20240101_120000'' init_database
        ([(''a.pdf'', statement ''Apple Inc.'' ''2020'' 100 300)] @
         [(''b.pdf'', null_company), (''c.pdf'', statement ''Apple Inc.'' ''2022'' 150 0)])))) = 2"
proof -
  let ?pre = "[(''a.pdf'', statement ''Apple Inc.'' ''2020'' 100 300)]"
  let ?post = "[(''b.pdf'', null_company), (''c.pdf'', statement ''Apple Inc.'' ''2022'' 150 0)]"
  let ?s = "save_financial_data ''20240101_120000'' init_database (?pre @ ?post)"
  have h: "whole_documents init_database"
    by (simp add: whole_documents_def init_database_def)
  have r: "raised ?s = None" by code_simp
  have o: "stdout ?s = [Error_saving_data ''b.pdf'' IntegrityError]" by code_simp
  from documents_persist_whole[OF h, of "''20240101_120000''" ?pre ?post] r
  have w: "whole_documents (database ?s)"
    and n: "length (documents (database ?s)) + length (stdout ?s) =
            length (documents init_database) + length (?pre @ ?post)"
    by blast+
  from n have "length (documents (database ?s)) = 2"
    unfolding o by (simp add: init_database_def)
  with h w r o show ?thesis by blast
qed

text \<open>
  Claim C3 is what the handlers aim at, and the code misses it for one failure: the
  read of \<open>data["document_info"]\<close> stands before the \<open>try\<close>. A document without that
  group raises KeyError out of the loop: nothing is printed for it and the documents
  after it are never written.
\<close>

theorem missing_document_info_aborts_batch:
  "save_financial_data ''20240101_120000'' init_database
     [(''a.pdf'', JObject []), (''b.pdf'', statement ''Apple Inc.'' ''2022'' 150 0)] =
   \<lparr>raised = Some (KeyError ''document_info''), database = init_database, stdout = [],
    parquet = []\<rparr>"
  by (simp add: save_financial_data_def save_to_sqlite_def connect_def close_def)

section \<open>Properties of the analytics engine\<close>

text \<open>The rows of a join as a multiset, and the one way to sort rows of different keys.\<close>

lemma mset_join:
  "mset (concat (map (\<lambda>d. map (\<lambda>i. (f d, g i)) (filter (\<lambda>i. k d = k' i) is)) ds)) =
   (\<Sum>p \<in># image_mset (\<lambda>d. (k d, f d)) (mset ds).
      image_mset (\<lambda>x. (snd p, snd x))
        (filter_mset (\<lambda>x. fst p = fst x) (image_mset (\<lambda>i. (k' i, g i)) (mset is))))"
proof (induction ds)
  case Nil
  then show ?case by simp
next
  case (Cons d ds)
  have "mset (map (\<lambda>i. (f d, g i)) (filter (\<lambda>i. k d = k' i) is)) =
        image_mset (\<lambda>x. (f d, snd x))
          (filter_mset (\<lambda>x. k d = fst x) (image_mset (\<lambda>i. (k' i, g i)) (mset is)))"
    by (induction "is") auto
  then show ?case using Cons by simp
qed

lemma sort_key_unique:
  assumes m: "mset xs = mset ys" and s: "sorted (map f ys)" and d: "distinct (map f ys)"
  shows "sort_key f xs = ys"
proof (rule properties_for_sort_key)
  show "mset ys = mset xs" using m by simp
  show "sorted (map f ys)" by (rule s)
  fix k assume k: "k \<in> set ys"
  have "mset (filter (\<lambda>x. f k = f x) xs) = mset (filter (\<lambda>x. f k = f x) ys)"
    using m by simp
  moreover have "filter (\<lambda>x. f k = f x) ys = [k]"
    using d k
  proof (induction ys)
    case Nil
    then show ?case by simp
  next
    case (Cons y ys)
    then show ?case by (auto simp: filter_empty_conv image_iff)
  qed
  ultimately have "mset (filter (\<lambda>x. f k = f x) xs) = {#k#}" by simp
  then have "filter (\<lambda>x. f k = f x) xs = [k]" by (simp only: mset_single_iff)
  then show "filter (\<lambda>x. f k = f x) ys = filter (\<lambda>x. f k = f x) xs"
    using \<open>filter (\<lambda>x. f k = f x) ys = [k]\<close> by simp
qed


lemma round2_of_int:
  assumes "\<bar>n\<bar> \<le> 4503599627370496"
  shows "round2 (of_int n) = of_int n"
proof -
  have f: "\<lfloor>(of_int k :: rat) + 1 / 2\<rfloor> = k" for k :: int
    by (rule floor_unique) simp_all
  have a: "\<lfloor>(of_int n :: rat) * 100 + 1 / 2\<rfloor> = n * 100"
    using f[of "n * 100"] by simp
  have b: "\<lfloor>1 / 2 - (of_int n :: rat) * 100\<rfloor> = - n * 100"
    using f[of "- n * 100"] by (simp add: algebra_simps)
  have r: "\<not> (of_int n :: rat) < - 4503599627370496" "\<not> (of_int n :: rat) > 4503599627370496"
    using assms by (simp_all add: abs_le_iff not_less)
  show ?thesis
    unfolding round2_def using r by (simp add: a b)
qed

lemma round2_20: "round2 20 = 20"
  using round2_of_int[of 20] by simp

lemma round2_25: "round2 25 = 25"
  using round2_of_int[of 25] by simp

lemma round2_100: "round2 100 = 100"
  using round2_of_int[of 100] by simp

text \<open>
  Claim C7. In a store whose documents are three, of the fiscal years "2020", "2021"
  and "2022", each with one income statement, of revenue 100, 120 and 150, in whatever
  order the rows were written, the query of the year-over-year revenue growth gives
  exactly two rows: 20 for 2021 and 25 for 2022.
\<close>

theorem revenue_growth_three_years:
  assumes ds: "mset (map (\<lambda>d. (document_id d, text_affinity q (fiscal_year d))) (documents t)) =
                 {#(a, Some ''2020''), (b, Some ''2021''), (c, Some ''2022'')#}"
    and abc: "a \<noteq> b" "a \<noteq> c" "b \<noteq> c"
    and inc: "mset (map (\<lambda>i. (income_document_id i, real_affinity q (revenue i)))
                    (income_statements t)) =
                 {#(a, SReal (Finite 100)), (b, SReal (Finite 120)), (c, SReal (Finite 150))#}"
  shows "revenue_growth q t =
           [(Some ''2021'', SReal (Finite 20)), (Some ''2022'', SReal (Finite 25))]"
proof -
  let ?J = "concat (map (\<lambda>d. map (\<lambda>i. (text_affinity q (fiscal_year d),
                                           real_affinity q (revenue i)))
                         (filter (\<lambda>i. document_id d = income_document_id i)
                            (income_statements t)))
                     (documents t))"
  let ?R = "[(Some ''2020'', SReal (Finite 100)), (Some ''2021'', SReal (Finite 120)),
             (Some ''2022'', SReal (Finite 150))]"
  have ds': "image_mset (\<lambda>d. (document_id d, text_affinity q (fiscal_year d))) (mset (documents t)) =
                 {#(a, Some ''2020''), (b, Some ''2021''), (c, Some ''2022'')#}"
    using ds by simp
  have is': "image_mset (\<lambda>i. (income_document_id i, real_affinity q (revenue i)))
                    (mset (income_statements t)) =
                 {#(a, SReal (Finite 100)), (b, SReal (Finite 120)), (c, SReal (Finite 150))#}"
    using inc by simp
  have mJ: "mset ?J = mset ?R"
    unfolding mset_join ds' is' using abc by simp
  have sJ: "sort_key fst ?J = ?R"
    by (rule sort_key_unique[OF mJ]) simp_all
  have rd: "revenue_data q t =
      [(Some ''2020'', SReal (Finite 100), SNull),
       (Some ''2021'', SReal (Finite 120), SReal (Finite 100)),
       (Some ''2022'', SReal (Finite 150), SReal (Finite 120))]"
    unfolding revenue_data_def sJ by (simp add: lag_def)
  have p1: "percent q (sql_sub q (SReal (Finite 120)) (SReal (Finite 100))) (SReal (Finite 100)) =
      SReal (Finite 20)"
    by (simp add: percent_def sql_sub_def sql_div_def sql_mul_def sql_round2_def round2_20
          round2_25 dsub_def fp_result_def)
  have p2: "percent q (sql_sub q (SReal (Finite 150)) (SReal (Finite 120))) (SReal (Finite 120)) =
      SReal (Finite 25)"
    by (simp add: percent_def sql_sub_def sql_div_def sql_mul_def sql_round2_def round2_20
          round2_25 dsub_def fp_result_def)
  show ?thesis
    unfolding revenue_growth_def rd by (simp add: p1 p2)
qed

theorem revenue_growth_three_years_witness:
  "\<forall>q. revenue_growth q
      (database (save_financial_data ''20240101_120000'' init_database
         [(''aapl-2021.pdf'', statement ''Apple Inc.'' ''2021'' 120 300),
          (''aapl-2020.pdf'', statement ''Apple Inc.'' ''2020'' 100 300),
          (''aapl-2022.pdf'', statement ''Apple Inc.'' ''2022'' 150 300)])) =
      [(Some ''2021'', SReal (Finite 20)), (Some ''2022'', SReal (Finite 25))]"
proof
  fix q
  let ?t = "database (save_financial_data ''20240101_120000'' init_database
         [(''aapl-2021.pdf'', statement ''Apple Inc.'' ''2021'' 120 300),
          (''aapl-2020.pdf'', statement ''Apple Inc.'' ''2020'' 100 300),
          (''aapl-2022.pdf'', statement ''Apple Inc.'' ''2022'' 150 300)])"
  have d: "map (\<lambda>d. (document_id d, fiscal_year d)) (documents ?t) =
      [(1, SText ''2021''), (2, SText ''2020''), (3, SText ''2022'')]"
    by code_simp
  have i: "map (\<lambda>i. (income_document_id i, revenue i)) (income_statements ?t) =
      [(1, SInteger 120), (2, SInteger 100), (3, SInteger 150)]"
    by code_simp
  have "map (\<lambda>d. (document_id d, text_affinity q (fiscal_year d))) (documents ?t) =
      map (\<lambda>(k, y). (k, text_affinity q y)) (map (\<lambda>d. (document_id d, fiscal_year d)) (documents ?t))"
    by simp
  then have ds: "mset (map (\<lambda>d. (document_id d, text_affinity q (fiscal_year d))) (documents ?t)) =
      {#(2, Some ''2020''), (1, Some ''2021''), (3, Some ''2022'')#}"
    unfolding d by simp
  have "map (\<lambda>i. (income_document_id i, real_affinity q (revenue i))) (income_statements ?t) =
      map (\<lambda>(k, v). (k, real_affinity q v))
        (map (\<lambda>i. (income_document_id i, revenue i)) (income_statements ?t))"
    by simp
  then have inc: "mset (map (\<lambda>i. (income_document_id i, real_affinity q (revenue i)))
                    (income_statements ?t)) =
      {#(2, SReal (Finite 100)), (1, SReal (Finite 120)), (3, SReal (Finite 150))#}"
    unfolding i by simp
  have abc: "(2::int) \<noteq> 1" "(2::int) \<noteq> 3" "(1::int) \<noteq> 3" by simp_all
  show "revenue_growth q ?t =
      [(Some ''2021'', SReal (Finite 20)), (Some ''2022'', SReal (Finite 25))]"
    by (rule revenue_growth_three_years[OF ds abc inc])
qed

text \<open>A division by zero is NULL, and so is the percentage built on it.\<close>

lemma sql_div_zero: "sql_div q x (SReal (Finite 0)) = SNull"
  by (cases "to_num q x") (auto simp: sql_div_def split: num.splits)

lemma percent_zero: "percent q x (SReal (Finite 0)) = SNull"
  by (simp add: percent_def sql_div_zero sql_mul_def sql_round2_def)

text \<open>
  Claim C8. In every store, a balance sheet whose total liabilities are 0 gives a row
  of the liquidity query whose value is NULL: the query has one row for each pair of a
  document and its balance sheet, and the report holds that row in its fifth section.
\<close>

theorem liquidity_zero_liabilities:
  assumes "d \<in> set (documents t)" and "b \<in> set (balance_sheets t)"
    and "document_id d = balance_document_id b"
    and "real_affinity q (total_liabilities b) = SReal (Finite 0)"
  shows "(text_affinity q (fiscal_year d), SNull) \<in> set (liquidity_indicator q t)
    \<and> length (liquidity_indicator q t) =
        length (concat (map (\<lambda>d. filter (\<lambda>b. document_id d = balance_document_id b) (balance_sheets t))
                         (documents t)))
    \<and> (\<exists>rows. map_of (run_analysis_queries q t) ''5. Liquidity Indicator'' = Some rows \<and>
          [text_cell (text_affinity q (fiscal_year d)), SNull] \<in> set rows)"
proof -
  have m: "(text_affinity q (fiscal_year d), SNull) \<in> set (liquidity_indicator q t)"
    unfolding liquidity_indicator_def set_sort
    using assms(1-3) percent_zero[of q] assms(4)
    by (auto intro!: bexI[of _ d] image_eqI[of _ _ b])
  have l: "length (liquidity_indicator q t) =
        length (concat (map (\<lambda>d. filter (\<lambda>b. document_id d = balance_document_id b) (balance_sheets t))
                         (documents t)))"
    by (simp add: liquidity_indicator_def length_concat comp_def)
  have r: "map_of (run_analysis_queries q t) ''5. Liquidity Indicator'' =
      Some (map (\<lambda>(fy, l). [text_cell fy, l]) (liquidity_indicator q t))"
    by (simp add: run_analysis_queries_def)
  have "[text_cell (text_affinity q (fiscal_year d)), SNull]
      \<in> set (map (\<lambda>(fy, l). [text_cell fy, l]) (liquidity_indicator q t))"
    using m by force
  with m l r show ?thesis by blast
qed

theorem liquidity_zero_liabilities_witness:
  "\<forall>q. (Some ''2022'', SNull) \<in> set (liquidity_indicator q
      (database (save_financial_data ''20240101_120000'' init_database
         [(''aapl-2021.pdf'', statement ''Apple Inc.'' ''2021'' 120 250),
          (''aapl-2022.pdf'', statement ''Apple Inc.'' ''2022'' 150 0)])))
    \<and> liquidity_indicator q
      (database (save_financial_data ''20240101_120000'' init_database
         [(''aapl-2021.pdf'', statement ''Apple Inc.'' ''2021'' 120 250),
          (''aapl-2022.pdf'', statement ''Apple Inc.'' ''2022'' 150 0)])) =
      [(Some ''2021'', SReal (Finite 100)), (Some ''2022'', SNull)]"
proof
  fix q
  let ?t = "database (save_financial_data ''20240101_120000'' init_database
         [(''aapl-2021.pdf'', statement ''Apple Inc.'' ''2021'' 120 250),
          (''aapl-2022.pdf'', statement ''Apple Inc.'' ''2022'' 150 0)])"
  let ?d = "\<lparr>document_id = 2, company_name = SText ''Apple Inc.'', fiscal_year = SText ''2022'',
             document_type = SText ''10-K''\<rparr>"
  let ?b = "\<lparr>balance_sheet_id = 2, balance_document_id = 2, total_assets = SInteger 500,
             total_liabilities = SInteger 0, total_equity = SInteger 200\<rparr>"
  have d: "documents ?t = [\<lparr>document_id = 1, company_name = SText ''Apple Inc.'',
                  fiscal_year = SText ''2021'', document_type = SText ''10-K''\<rparr>, ?d]"
    by code_simp
  have b: "balance_sheets ?t = [\<lparr>balance_sheet_id = 1, balance_document_id = 1,
               total_assets = SInteger 500, total_liabilities = SInteger 250,
               total_equity = SInteger 200\<rparr>, ?b]"
    by code_simp
  have h1: "?d \<in> set (documents ?t)" and h2: "?b \<in> set (balance_sheets ?t)"
    unfolding d b by simp_all
  have h3: "document_id ?d = balance_document_id ?b" by simp
  have h4: "real_affinity q (total_liabilities ?b) = SReal (Finite 0)" by simp
  from liquidity_zero_liabilities[OF h1 h2 h3 h4]
  have m: "(Some ''2022'', SNull) \<in> set (liquidity_indicator q ?t)"
    by simp
  have l: "liquidity_indicator q ?t = [(Some ''2021'', SReal (Finite 100)), (Some ''2022'', SNull)]"
    unfolding liquidity_indicator_def d b
    by (simp add: percent_def sql_sub_def sql_div_def sql_mul_def sql_round2_def
          dsub_def fp_result_def round2_100)
  from m l show "(Some ''2022'', SNull) \<in> set (liquidity_indicator q ?t) \<and>
      liquidity_indicator q ?t = [(Some ''2021'', SReal (Finite 100)), (Some ''2022'', SNull)]"
    by (rule conjI)
qed

section \<open>Properties of the pipeline\<close>

text \<open>
  The loop over the paths: every key of the batch is a basename, each basename is kept
  once, and the value under a basename is the record of the last path that has it.
\<close>

lemma process_files_results:
  assumes "process_files file_paths results calls = Some (calls', Inr results')"
  shows "(\<forall>k. map_option Some (map_of results' k) =
            (case map_of (rev (map (\<lambda>(p, s). (basename p, extracted s)) file_paths)) k of
               Some v \<Rightarrow> Some v
             | None \<Rightarrow> map_option Some (map_of results k)))
       \<and> fst ` set results' = fst ` set results \<union> basename ` fst ` set file_paths
       \<and> (distinct (map fst results) \<longrightarrow> distinct (map fst results'))"
  using assms
proof (induction file_paths arbitrary: results calls)
  case Nil
  then show ?case by simp
next
  case (Cons a rest)
  obtain p s where a: "a = (p, s)" by (cases a) auto
  from Cons.prems obtain c1 info where c: "create_financial_assistant s = (c1, Inr info)"
    by (auto simp: a split: prod.splits sum.splits)
  from Cons.prems c obtain c2 j where e: "extract_financial_data s info = Some (c2, Inr j)"
    by (auto simp: a split: prod.splits sum.splits option.splits)
  have x: "extracted s = Some j" by (simp add: extracted_def c e)
  have r: "process_files rest (AList.update (basename p) j results) (calls @ c1 @ c2) =
             Some (calls', Inr results')"
    using Cons.prems c e by (simp add: a)
  note ih = Cons.IH[OF r]
  have 1: "\<forall>k. map_option Some (map_of results' k) =
            (case map_of (rev (map (\<lambda>(p, s). (basename p, extracted s)) (a # rest))) k of
               Some v \<Rightarrow> Some v
             | None \<Rightarrow> map_option Some (map_of results k))"
    using ih by (auto simp: a x update_conv' map_add_def split: option.splits)
  have 2: "fst ` set results' = fst ` set results \<union> basename ` fst ` set (a # rest)"
    using ih by (auto simp: a dom_update)
  have 3: "distinct (map fst results) \<longrightarrow> distinct (map fst results')"
    using ih by (simp add: distinct_update)
  from 1 2 3 show ?case by blast
qed


lemma parquet_rows_length:
  "parquet_rows category results = Inr rows \<Longrightarrow> length rows = length results"
proof (induction results arbitrary: rows)
  case Nil
  then show ?case by simp
next
  case (Cons a results)
  obtain document doc_data where a: "a = (document, doc_data)" by (cases a) auto
  from Cons.prems obtain r rs where "parquet_rows category results = Inr rs" "rows = r # rs"
    by (auto simp: a bnd_def split: sum.splits)
  then show ?case using Cons.IH by simp
qed

lemma save_to_parquet_length:
  "save_to_parquet timestamp categories results = (r, files) \<Longrightarrow>
   (path, rows) \<in> set files \<Longrightarrow> length rows = length results"
proof (induction categories arbitrary: r files)
  case Nil
  then show ?case by simp
next
  case (Cons category categories)
  show ?case
  proof (cases "parquet_rows category results")
    case (Inl e)
    then show ?thesis using Cons.prems by simp
  next
    case (Inr rows')
    obtain r' files' where s: "save_to_parquet timestamp categories results = (r', files')"
      by (cases "save_to_parquet timestamp categories results") auto
    from Cons.prems Inr s have "(path, rows) \<in> set files' \<or> rows = rows'"
      by (auto split: if_splits)
    then show ?thesis
      using Cons.IH[OF s] parquet_rows_length[OF Inr] by auto
  qed
qed

text \<open>
  Claim C10. When \<open>main_flow\<close> returns, the batch is keyed by the basenames of the input
  paths, each once; the record under a basename is the one extracted for the last path
  with that basename. So the batch is no longer than the list of paths, and shorter
  when two paths share a basename; no more documents than the batch has are written
  to the database, and every Parquet file has one row for each entry of the batch.
\<close>

theorem results_keyed_by_basename:
  assumes "main_flow q timestamp file_paths = Some f" and "returned f = Inr results"
  shows "distinct (map fst results)
    \<and> fst ` set results = basename ` fst ` set file_paths
    \<and> (\<forall>k. map_option Some (map_of results k) =
           map_of (rev (map (\<lambda>(p, s). (basename p, extracted s)) file_paths)) k)
    \<and> length results \<le> length file_paths
    \<and> (\<not> distinct (map (\<lambda>(p, s). basename p) file_paths) \<longrightarrow>
          length results < length file_paths)
    \<and> length (documents (gold f)) \<le> length results
    \<and> (\<forall>(path, rows) \<in> set (parquet_files f). length rows = length results)"
proof -
  let ?s = "save_financial_data timestamp init_database results"
  from assms obtain calls where
    p: "process_files file_paths [] [] = Some (calls, Inr results)"
    and r: "raised ?s = None" and g: "gold f = database ?s" and pq: "parquet_files f = parquet ?s"
    by (auto simp: main_flow_def Let_def split: option.splits prod.splits sum.splits)
  note pr = process_files_results[OF p]
  have d: "distinct (map fst results)" using pr by simp
  have k: "fst ` set results = basename ` fst ` set file_paths" using pr by simp
  have m: "\<forall>k. map_option Some (map_of results k) =
           map_of (rev (map (\<lambda>(p, s). (basename p, extracted s)) file_paths)) k"
    using pr by (auto split: option.splits)
  have b: "set (map (\<lambda>(p, s). basename p) file_paths) = basename ` fst ` set file_paths"
    by force
  have "length results = card (set (map fst results))"
    using distinct_card[OF d] by (simp del: set_map)
  also have "\<dots> = card (set (map (\<lambda>(p, s). basename p) file_paths))"
    unfolding b using k by simp
  finally have c: "length results = card (set (map (\<lambda>(p, s). basename p) file_paths))" .
  have l: "length results \<le> length file_paths"
    unfolding c using card_length[of "map (\<lambda>(p, s). basename p) file_paths"] by simp
  have n: "\<not> distinct (map (\<lambda>(p, s). basename p) file_paths) \<longrightarrow>
          length results < length file_paths"
  proof
    assume nd: "\<not> distinct (map (\<lambda>(p, s). basename p) file_paths)"
    have "length results \<noteq> length (map (\<lambda>(p, s). basename p) file_paths)"
      unfolding c using nd card_distinct by blast
    then show "length results < length file_paths" using l by simp
  qed
  obtain r0 db out where sq: "save_to_sqlite init_database results = (r0, db, out)"
    by (cases "save_to_sqlite init_database results") auto
  have r0: "r0 = None" using save_financial_data_sqlite(3)[OF r] sq by simp
  have db: "database ?s = db" using save_financial_data_sqlite(1)[of timestamp init_database results] sq
    by simp
  have "length (documents db) + length out = length (documents init_database) + length results"
    using save_to_sqlite_steps[OF sq] r0 by blast
  then have gd: "length (documents (gold f)) \<le> length results"
    unfolding g db by (simp add: init_database_def)
  have pf: "\<forall>(path, rows) \<in> set (parquet_files f). length rows = length results"
  proof (clarify)
    fix path rows assume i: "(path, rows) \<in> set (parquet_files f)"
    from r sq r0 obtain r1 where
      "save_to_parquet timestamp [''income_statements'', ''balance_sheets'', ''cash_flows''] results
         = (r1, parquet ?s)"
      by (auto simp: save_financial_data_def split: prod.splits option.splits)
    from save_to_parquet_length[OF this] i pq show "length rows = length results" by simp
  qed
  from d k m l n gd pf show ?thesis by blast
qed

theorem results_keyed_by_basename_witness:
  "\<forall>q. map_option returned (main_flow q ''20240101_120000''
        [(''./bronze/2021/aapl.pdf'',
          completed_after 0 [\<lparr>role = ''assistant'', content =
            [TextBlock (Loads (statement ''Apple Inc.'' ''2021'' 120 250))]\<rparr>]),
         (''./bronze/msft.pdf'',
          completed_after 1 [\<lparr>role = ''assistant'', content =
            [TextBlock (Loads (statement ''Microsoft'' ''2022'' 200 100))]\<rparr>]),
         (''./bronze/2022/aapl.pdf'',
          completed_after 0 [\<lparr>role = ''assistant'', content =
            [TextBlock (Loads (statement ''Apple Inc.'' ''2022'' 150 0))]\<rparr>])]) =
      Some (Inr
        [(''aapl.pdf'', statement ''Apple Inc.'' ''2022'' 150 0),
         (''msft.pdf'', statement ''Microsoft'' ''2022'' 200 100)])
    \<and> map_option (\<lambda>f. length (documents (gold f))) (main_flow q ''20240101_120000''
        [(''./bronze/2021/aapl.pdf'',
          completed_after 0 [\<lparr>role = ''assistant'', content =
            [TextBlock (Loads (statement ''Apple Inc.'' ''2021'' 120 250))]\<rparr>]),
         (''./bronze/msft.pdf'',
          completed_after 1 [\<lparr>role = ''assistant'', content =
            [TextBlock (Loads (statement ''Microsoft'' ''2022'' 200 100))]\<rparr>]),
         (''./bronze/2022/aapl.pdf'',
          completed_after 0 [\<lparr>role = ''assistant'', content =
            [TextBlock (Loads (statement ''Apple Inc.'' ''2022'' 150 0))]\<rparr>])]) = Some 2
    \<and> length
        [(''aapl.pdf'', statement ''Apple Inc.'' ''2022'' 150 0),
         (''msft.pdf'', statement ''Microsoft'' ''2022'' 200 100)] < length
        [(''./bronze/2021/aapl.pdf'',
          completed_after 0 [\<lparr>role = ''assistant'', content =
            [TextBlock (Loads (statement ''Apple Inc.'' ''2021'' 120 250))]\<rparr>]),
         (''./bronze/msft.pdf'',
          completed_after 1 [\<lparr>role = ''assistant'', content =
            [TextBlock (Loads (statement ''Microsoft'' ''2022'' 200 100))]\<rparr>]),
         (''./bronze/2022/aapl.pdf'',
          completed_after 0 [\<lparr>role = ''assistant'', content =
            [TextBlock (Loads (statement ''Apple Inc.'' ''2022'' 150 0))]\<rparr>])]"
proof
  fix q
  let ?in = "[(''./bronze/2021/aapl.pdf'',
          completed_after 0 [\<lparr>role = ''assistant'', content =
            [TextBlock (Loads (statement ''Apple Inc.'' ''2021'' 120 250))]\<rparr>]),
         (''./bronze/msft.pdf'',
          completed_after 1 [\<lparr>role = ''assistant'', content =
            [TextBlock (Loads (statement ''Microsoft'' ''2022'' 200 100))]\<rparr>]),
         (''./bronze/2022/aapl.pdf'',
          completed_after 0 [\<lparr>role = ''assistant'', content =
            [TextBlock (Loads (statement ''Apple Inc.'' ''2022'' 150 0))]\<rparr>])]"
  let ?res = "[(''aapl.pdf'', statement ''Apple Inc.'' ''2022'' 150 0),
         (''msft.pdf'', statement ''Microsoft'' ''2022'' 200 100)]"
  have pf: "\<exists>calls. process_files ?in [] [] = Some (calls, Inr ?res)"
    by (simp add: create_financial_assistant_def extract_financial_data_def completed_after_def
          poll.simps basename_def)
  have sv: "raised (save_financial_data ''20240101_120000'' init_database ?res) = None"
    by code_simp
  have gd: "length (documents (database
              (save_financial_data ''20240101_120000'' init_database ?res))) = 2"
    by code_simp
  from pf obtain calls where pc: "process_files ?in [] [] = Some (calls, Inr ?res)" by blast
  have e: "map_option returned (main_flow q ''20240101_120000'' ?in) = Some (Inr ?res)"
    unfolding main_flow_def pc by (simp add: sv Let_def)
  have g: "map_option (\<lambda>f. length (documents (gold f))) (main_flow q ''20240101_120000'' ?in) = Some 2"
    unfolding main_flow_def pc by (simp add: sv gd Let_def)
  from e obtain f where f: "main_flow q ''20240101_120000'' ?in = Some f"
    and r: "returned f = Inr ?res"
    by (cases "main_flow q ''20240101_120000'' ?in") auto
  have nd: "\<not> distinct (map (\<lambda>(p, s). basename p) ?in)"
    by (simp add: basename_def)
  from results_keyed_by_basename[OF f r] nd have "length ?res < length ?in"
    by blast
  with e g show "map_option returned (main_flow q ''20240101_120000'' ?in) = Some (Inr ?res)
    \<and> map_option (\<lambda>f. length (documents (gold f))) (main_flow q ''20240101_120000'' ?in) = Some 2
    \<and> length ?res < length ?in"
    by blast
qed

end
